theory Spec2Isabelle
  imports Main
begin

section \<open>JavaScript values\<close>

text \<open>
  A regular expression is modelled by what \<^verbatim>\<open>exec\<close> computes on a string: no match
  (\<^verbatim>\<open>null\<close>), or the whole matched text together with the capture groups, each a string or
  \<^verbatim>\<open>undefined\<close> (a group that took no part in the match). The matchers are the stateless
  ones: a RegExp with the \<^verbatim>\<open>g\<close> or \<^verbatim>\<open>y\<close> flag, whose \<^verbatim>\<open>lastIndex\<close> changes
  from one call to the next, is outside the model.
\<close>

type_synonym matcher = "string \<Rightarrow> (string \<times> string option list) option"

datatype jsval =
    JUndefined
  | JNull
  | JBool bool
  | JNum int
  | JStr string
  | JRegExp matcher
  | JObject

fun capture :: "string option \<Rightarrow> jsval" where
  "capture None = JUndefined"
| "capture (Some s) = JStr s"

text \<open>\<^verbatim>\<open>pattern.exec(s)\<close>: \<^verbatim>\<open>null\<close>, or the match array, whole match at index 0.\<close>

definition exec :: "matcher \<Rightarrow> string \<Rightarrow> jsval list option" where
  "exec pattern s =
     (case pattern s of
        None \<Rightarrow> None
      | Some (whole, groups) \<Rightarrow> Some (JStr whole # map capture groups))"

text \<open>
  Reading and writing an array by index. A read past the end gives \<^verbatim>\<open>undefined\<close>; a
  write past the end extends the array, the holes reading as \<^verbatim>\<open>undefined\<close>.
\<close>

definition array_get :: "jsval list \<Rightarrow> nat \<Rightarrow> jsval" where
  "array_get this i = (if i < length this then this ! i else JUndefined)"

definition array_set :: "jsval list \<Rightarrow> nat \<Rightarrow> jsval \<Rightarrow> jsval list" where
  "array_set this i v =
     (if i < length this then this[i := v]
      else this @ replicate (i - length this) JUndefined @ [v])"

text \<open>\<^verbatim>\<open>String.prototype.toUpperCase\<close>, on the ASCII letters of method names.\<close>

definition upper_char :: "char \<Rightarrow> char" where
  "upper_char c =
     (case map_of (zip ''abcdefghijklmnopqrstuvwxyz'' ''ABCDEFGHIJKLMNOPQRSTUVWXYZ'') c of
        Some u \<Rightarrow> u
      | None \<Rightarrow> c)"

definition toUpperCase :: "string \<Rightarrow> string" where
  "toUpperCase s = map upper_char s"


section \<open>Match results: lib/router.js, makeAccessorsForIndex\<close>

text \<open>
  A property descriptor \<^verbatim>\<open>{ get: ..., set: ... }\<close>. Both functions work on \<^verbatim>\<open>this\<close>,
  the array the property is installed on: \<^verbatim>\<open>get\<close> returns a value, \<^verbatim>\<open>set\<close> returns the
  array as the assignment leaves it.
\<close>

record accessor =
  get_fn :: "jsval list \<Rightarrow> jsval"
  set_fn :: "jsval \<Rightarrow> jsval list \<Rightarrow> jsval list"

definition makeAccessorsForIndex :: "nat \<Rightarrow> accessor" where
  "makeAccessorsForIndex index =
     \<lparr> get_fn = (\<lambda>this. array_get this (index + 1)),
       set_fn = (\<lambda>value this. array_set this (index + 1) value) \<rparr>"

text \<open>
  The object attached to \<^verbatim>\<open>request.route\<close>: an array (\<open>slots\<close>) and the own properties
  defined on it by name (\<open>props\<close>).
\<close>

datatype property = Accessor accessor | Data jsval

record routeData =
  slots :: "jsval list"
  props :: "string \<rightharpoonup> property"

text \<open>\<^verbatim>\<open>utils.slice(match, 0)\<close>: a plain array holding the elements from index 0 on.\<close>

definition utils_slice :: "jsval list \<Rightarrow> nat \<Rightarrow> jsval list" where
  "utils_slice xs n = drop n xs"

datatype js_error = Error string | TypeError

text \<open>
  \<^verbatim>\<open>Object.defineProperties(array, descriptors)\<close>. The \<^verbatim>\<open>length\<close> of an array is an own
  property that cannot be redefined: a descriptor of that name makes the call throw a
  TypeError. Otherwise the result is the array with the accessors defined on it
  (\<open>with_accessors\<close>).
\<close>

definition with_accessors :: "jsval list \<Rightarrow> (string \<rightharpoonup> accessor) \<Rightarrow> routeData" where
  "with_accessors arr descriptors =
     \<lparr> slots = arr, props = (\<lambda>name. map_option Accessor (descriptors name)) \<rparr>"

definition defineProperties ::
  "jsval list \<Rightarrow> (string \<rightharpoonup> accessor) \<Rightarrow> js_error + routeData" where
  "defineProperties arr descriptors =
     (if descriptors ''length'' \<noteq> None then Inl TypeError
      else Inr (with_accessors arr descriptors))"

text \<open>
  The names that are array indices: the decimal numerals without a leading zero. An
  accessor defined under such a name takes the place of the slot of that index.
\<close>

definition is_array_index :: "string \<Rightarrow> bool" where
  "is_array_index s =
     (s \<noteq> [] \<and> list_all (\<lambda>c. c \<in> set ''0123456789'') s \<and>
      (s = ''0'' \<or> hd s \<noteq> CHR ''0''))"

text \<open>
  \<^verbatim>\<open>route.name\<close> and \<^verbatim>\<open>route.name = v\<close>; \<^verbatim>\<open>route[i]\<close> and \<^verbatim>\<open>route[i] = v\<close>. The reads
  and writes by index are those of an object on which no accessor is defined under an array
  index; the facts below that read slots assume it of the names they define.
\<close>

definition prop_get :: "routeData \<Rightarrow> string \<Rightarrow> jsval" where
  "prop_get rd name =
     (case props rd name of
        None \<Rightarrow> JUndefined
      | Some (Accessor a) \<Rightarrow> get_fn a (slots rd)
      | Some (Data v) \<Rightarrow> v)"

definition prop_set :: "routeData \<Rightarrow> string \<Rightarrow> jsval \<Rightarrow> routeData" where
  "prop_set rd name v =
     (case props rd name of
        Some (Accessor a) \<Rightarrow> rd\<lparr>slots := set_fn a v (slots rd)\<rparr>
      | _ \<Rightarrow> rd\<lparr>props := (props rd)(name \<mapsto> Data v)\<rparr>)"

definition index_get :: "routeData \<Rightarrow> nat \<Rightarrow> jsval" where
  "index_get rd i = array_get (slots rd) i"

definition index_set :: "routeData \<Rightarrow> nat \<Rightarrow> jsval \<Rightarrow> routeData" where
  "index_set rd i v = rd\<lparr>slots := array_set (slots rd) i v\<rparr>"


section \<open>Requests, responses, apps\<close>

record body_stream =
  bytes :: string
  has_destroy :: bool

record response =
  status :: int
  headers :: "string \<rightharpoonup> jsval"
  content :: body_stream

text \<open>
  What a deferred result settles to. A rejection carries its reason: \<^verbatim>\<open>undefined\<close>,
  \<^verbatim>\<open>null\<close>, or any other value, of which the model keeps the \<^verbatim>\<open>stack\<close> property (when it
  has one that is a string) and the text it converts to.
\<close>

datatype reason = Undefined | Null | Thrown (stack: "string option") (as_text: string)

datatype outcome = Fulfilled response | Rejected reason | Pending

text \<open>
  An error object thrown by the code, as a rejection reason. It has a stack, abridged here
  to its first line, which is also the text it converts to; the message of a TypeError of
  the engine is left out.
\<close>

fun thrown :: "js_error \<Rightarrow> reason" where
  "thrown (Error m) = Thrown (Some (''Error: '' @ m)) (''Error: '' @ m)"
| "thrown TypeError = Thrown (Some ''TypeError'') ''TypeError''"

record request =
  "method" :: string
  pathInfo :: string
  route :: "routeData option"

text \<open>
  An app receives the request object and may change it; it is a function from the request
  to the outcome of the call and the request as the call leaves it.
\<close>

type_synonym app = "request \<Rightarrow> outcome \<times> request"

text \<open>
  Modelled from the spec: \<^verbatim>\<open>Request.prototype.call\<close> (lib/request.js) is not part of the
  sources at hand. Section 4.3: calling an app with a request always returns a deferred
  response, whether the app is synchronous or not, and an app that throws or whose deferred
  result rejects is a failed dispatch. So \<open>request_call\<close> applies the app to the request,
  a throw being the outcome \<open>Rejected\<close>.
\<close>

definition request_call :: "request \<Rightarrow> app \<Rightarrow> outcome \<times> request" where
  "request_call request a = a request"

text \<open>
  Modelled from the spec: \<^verbatim>\<open>utils.defaultApp\<close> (lib/utils.js) is not part of the sources
  at hand. Section 4.2 and section 8: the fallback of a router whose default was never set
  is a well-known "not found" app, resolving to a deterministic default response, a
  404-equivalent.
\<close>

definition utils_defaultApp :: app where
  "utils_defaultApp request =
     (Fulfilled \<lparr> status = 404,
                  headers = [''Content-Type'' \<mapsto> JStr ''text/plain''],
                  content = \<lparr> bytes = ''Not Found'', has_destroy = False \<rparr> \<rparr>,
      request)"


section \<open>The pattern compiler\<close>

text \<open>
  Modelled from the spec: \<^verbatim>\<open>utils.compileRoute\<close> (lib/utils.js) is not part of the sources
  at hand. Section 4.1: the template is walked left to right; a segment prefixed with
  \<^verbatim>\<open>:\<close> is a named parameter and becomes a capturing wildcard matching one path segment
  (no embedded \<^verbatim>\<open>/\<close>), its name recorded at its ordinal capture position; literal
  segments are matched verbatim. The matcher fails or returns the captured strings, index 0
  the entire matched text, indices 1..N the named parameters in template order.
\<close>

datatype segment = Literal string | Named string

fun split_path :: "string \<Rightarrow> string list" where
  "split_path [] = [[]]"
| "split_path (c # cs) =
     (if c = CHR ''/'' then [] # split_path cs
      else (case split_path cs of
              [] \<Rightarrow> [[c]]
            | w # ws \<Rightarrow> (c # w) # ws))"

fun segment_of :: "string \<Rightarrow> segment" where
  "segment_of [] = Literal []"
| "segment_of (c # cs) =
     (if c = CHR '':'' \<and> cs \<noteq> [] then Named cs else Literal (c # cs))"

fun match_segments :: "segment list \<Rightarrow> string list \<Rightarrow> string list option" where
  "match_segments [] [] = Some []"
| "match_segments (Literal l # segs) (p # ps) =
     (if l = p then match_segments segs ps else None)"
| "match_segments (Named n # segs) (p # ps) =
     (if p = [] then None else map_option ((#) p) (match_segments segs ps))"
| "match_segments _ _ = None"

fun segment_keys :: "segment list \<Rightarrow> string list" where
  "segment_keys [] = []"
| "segment_keys (Literal l # segs) = segment_keys segs"
| "segment_keys (Named n # segs) = n # segment_keys segs"

definition compileRoute :: "string \<Rightarrow> matcher \<times> string list" where
  "compileRoute template =
     (let segs = map segment_of (split_path template)
      in ((\<lambda>path. map_option (\<lambda>caps. (path, map Some caps))
                     (match_segments segs (split_path path))),
          segment_keys segs))"


section \<open>The router: lib/router.js, makeRouter\<close>

record route_entry =
  pattern :: matcher
  app :: app
  accessors :: "string \<rightharpoonup> accessor"

text \<open>
  The two variables a router closes over. \<open>routes\<close> is the object used as a table from
  upper-cased method names to arrays of routes, modelled as a map. The properties the object
  inherits (\<^verbatim>\<open>constructor\<close>, \<^verbatim>\<open>toString\<close>, ...) all have lower-case letters in their
  names: no registration writes them, and the lookup of a request method of such a name is
  outside the model.
\<close>

record router_state =
  defaultApp :: app
  routes :: "string \<rightharpoonup> route_entry list"

text \<open>\<^verbatim>\<open>defaultApp = defaultApp || utils.defaultApp; var routes = {};\<close>\<close>

definition makeRouter :: "app option \<Rightarrow> router_state" where
  "makeRouter arg =
     \<lparr> defaultApp = (case arg of None \<Rightarrow> utils_defaultApp | Some a \<Rightarrow> a),
       routes = Map.empty \<rparr>"

text \<open>\<^verbatim>\<open>routes[method] || []\<close>\<close>

definition bucket :: "(string \<rightharpoonup> route_entry list) \<Rightarrow> string \<Rightarrow> route_entry list" where
  "bucket rts m = (case rts m of None \<Rightarrow> [] | Some rs \<Rightarrow> rs)"

text \<open>
  The loop of \<^verbatim>\<open>router(request)\<close> over \<^verbatim>\<open>routesToTry\<close>, and the call after it. When
  \<^verbatim>\<open>Object.defineProperties\<close> throws, the router throws: \<^verbatim>\<open>request.route\<close> is not assigned,
  no app is called, and the router's own call is a failed one.
\<close>

fun router_loop :: "route_entry list \<Rightarrow> app \<Rightarrow> request \<Rightarrow> outcome \<times> request" where
  "router_loop [] dflt request = request_call request dflt"
| "router_loop (r # rest) dflt request =
     (case exec (pattern r) (pathInfo request) of
        None \<Rightarrow> router_loop rest dflt request
      | Some match \<Rightarrow>
          (case defineProperties (utils_slice match 0) (accessors r) of
             Inl e \<Rightarrow> (Rejected (thrown e), request)
           | Inr routeData \<Rightarrow>
               request_call (request\<lparr>route := Some routeData\<rparr>) (app r)))"

definition router :: "router_state \<Rightarrow> app" where
  "router st request =
     (let routesToTry = bucket (routes st) (method request) @ bucket (routes st) ''ANY''
      in router_loop routesToTry (defaultApp st) request)"

text \<open>\<^verbatim>\<open>router.run(app)\<close>\<close>

definition router_run :: "router_state \<Rightarrow> app \<Rightarrow> router_state" where
  "router_run st a = st\<lparr>defaultApp := a\<rparr>"

text \<open>
  \<^verbatim>\<open>router.route(pattern, app, methods)\<close>. The third argument is absent, one method
  name, or an array of method names.
\<close>

datatype methods_arg = NoMethods | OneMethod string | Methods "string list"

fun normalize_methods :: "methods_arg \<Rightarrow> string list" where
  "normalize_methods (OneMethod m) = [m]"
| "normalize_methods NoMethods = [''ANY'']"
| "normalize_methods (Methods ms) = ms"

text \<open>
  The \<^verbatim>\<open>keys.reduce\<close> that builds \<^verbatim>\<open>route.accessors\<close>, \<open>index\<close> counting the keys. The
  map holds the own properties of \<^verbatim>\<open>memo\<close>. The assignment \<^verbatim>\<open>memo[key] = ...\<close> with the
  key \<^verbatim>\<open>__proto__\<close> sets the prototype of the object and creates no own property.
\<close>

fun reduce_keys ::
  "(string \<rightharpoonup> accessor) \<Rightarrow> nat \<Rightarrow> string list \<Rightarrow> (string \<rightharpoonup> accessor)" where
  "reduce_keys memo index [] = memo"
| "reduce_keys memo index (key # keys) =
     reduce_keys (if key = ''__proto__'' then memo
                  else memo(key \<mapsto> makeAccessorsForIndex index))
                 (Suc index) keys"

text \<open>The body of \<^verbatim>\<open>methods.forEach\<close>.\<close>

definition push_route ::
  "route_entry \<Rightarrow> (string \<rightharpoonup> route_entry list) \<Rightarrow> string \<Rightarrow> (string \<rightharpoonup> route_entry list)" where
  "push_route r rts m =
     (let name = toUpperCase m
      in case rts name of
           Some rs \<Rightarrow> rts(name \<mapsto> rs @ [r])
         | None \<Rightarrow> rts(name \<mapsto> [r]))"

text \<open>
  The first half of \<^verbatim>\<open>router.route\<close>: a string is compiled, anything else is kept, with
  no keys. Then the route object, \<^verbatim>\<open>{ pattern: pattern, app: app }\<close> with its accessors.
\<close>

fun compile_pattern :: "jsval \<Rightarrow> jsval \<times> string list" where
  "compile_pattern (JStr s) = (JRegExp (fst (compileRoute s)), snd (compileRoute s))"
| "compile_pattern p = (p, [])"

definition make_route :: "matcher \<Rightarrow> string list \<Rightarrow> app \<Rightarrow> route_entry" where
  "make_route re keys a =
     \<lparr> pattern = re, app = a, accessors = reduce_keys Map.empty 0 keys \<rparr>"

definition router_route ::
  "router_state \<Rightarrow> jsval \<Rightarrow> app \<Rightarrow> methods_arg \<Rightarrow> js_error + router_state" where
  "router_route st pat a methods =
     (let ms = normalize_methods methods;
          (compiled, keys) = compile_pattern pat
      in case compiled of
           \<comment> \<open>\<^verbatim>\<open>utils.isRegExp(pattern)\<close>\<close>
           JRegExp re \<Rightarrow>
             (let r = make_route re keys a
              in Inr (st\<lparr>routes := foldl (push_route r) (routes st) ms\<rparr>))
         | _ \<Rightarrow> Inl (Error ''Pattern must be a RegExp''))"

text \<open>The sugar for the common verbs: \<^verbatim>\<open>methodVerbs\<close> and the functions made from it.\<close>

datatype verb = Get | Post | Put | Delete | Head | Options

fun methodVerbs :: "verb \<Rightarrow> methods_arg" where
  "methodVerbs Get = Methods [''GET'', ''HEAD'']"
| "methodVerbs Post = OneMethod ''POST''"
| "methodVerbs Put = OneMethod ''PUT''"
| "methodVerbs Delete = OneMethod ''DELETE''"
| "methodVerbs Head = OneMethod ''HEAD''"
| "methodVerbs Options = OneMethod ''OPTIONS''"

definition router_verb ::
  "verb \<Rightarrow> router_state \<Rightarrow> jsval \<Rightarrow> app \<Rightarrow> js_error + router_state" where
  "router_verb v st pat a = router_route st pat a (methodVerbs v)"

text \<open>
  A configuration script: the calls made on a router, in order, the first one that throws
  ending it.
\<close>

datatype call = CallRoute jsval app methods_arg | CallVerb verb jsval app | CallRun app

fun is_run :: "call \<Rightarrow> bool" where
  "is_run (CallRun a) = True"
| "is_run _ = False"

fun apply_call :: "router_state \<Rightarrow> call \<Rightarrow> js_error + router_state" where
  "apply_call st (CallRoute pat a ms) = router_route st pat a ms"
| "apply_call st (CallVerb v pat a) = router_verb v st pat a"
| "apply_call st (CallRun a) = Inr (router_run st a)"

fun apply_calls :: "router_state \<Rightarrow> call list \<Rightarrow> js_error + router_state" where
  "apply_calls st [] = Inr st"
| "apply_calls st (c # cs) =
     (case apply_call st c of
        Inl e \<Rightarrow> Inl e
      | Inr st' \<Rightarrow> apply_calls st' cs)"

section \<open>The request listener: bindAppToNodeServer\<close>

text \<open>
  What the listener does to the outside for one request: the head written by
  \<^verbatim>\<open>nodeResponse.writeHead\<close>, the bytes that reach \<^verbatim>\<open>nodeResponse\<close>, whether it was ended,
  the lines written to \<^verbatim>\<open>request.error\<close>, and whether the content stream was destroyed.
\<close>

record exchange =
  written_head :: "(int \<times> (string \<rightharpoonup> jsval)) option"
  written_body :: string
  ended :: bool
  error_stream :: "string list"
  destroyed :: bool

text \<open>The header of the given name, as written.\<close>

definition written_header :: "exchange \<Rightarrow> string \<Rightarrow> jsval option" where
  "written_header x name =
     (case written_head x of
        None \<Rightarrow> None
      | Some (code, hdrs) \<Rightarrow> hdrs name)"

definition untouched :: exchange where
  "untouched =
     \<lparr> written_head = None, written_body = [], ended = False,
       error_stream = [], destroyed = False \<rparr>"

text \<open>
  The first callback of \<^verbatim>\<open>request.call(app).then\<close>. \<^verbatim>\<open>utils.statusHasContent\<close>
  (lib/utils.js) is not part of the sources at hand and is a parameter. A content stream is
  finite: \<^verbatim>\<open>content.pipe(nodeResponse)\<close> writes its bytes and ends the response.
\<close>

definition on_fulfilled :: "(int \<Rightarrow> bool) \<Rightarrow> request \<Rightarrow> response \<Rightarrow> exchange" where
  "on_fulfilled statusHasContent request response =
     (let isHead = (method request = ''HEAD'');
          isEmpty = (isHead \<or> \<not> statusHasContent (status response));
          response = (if isEmpty \<and> \<not> isHead
                      then response\<lparr>headers := (headers response)(''Content-Length'' \<mapsto> JNum 0)\<rparr>
                      else response);
          io = untouched\<lparr>written_head := Some (status response, headers response)\<rparr>;
          body = content response
      in if isEmpty
         then io\<lparr>ended := True, destroyed := has_destroy body\<rparr>
         else io\<lparr>written_body := bytes body, ended := True\<rparr>)"

text \<open>
  The second callback. \<^verbatim>\<open>error.stack\<close> is a property read: on \<^verbatim>\<open>undefined\<close> and on
  \<^verbatim>\<open>null\<close> it throws a TypeError, before anything is written.
\<close>

fun on_rejected :: "reason \<Rightarrow> js_error + exchange" where
  "on_rejected Undefined = Inl TypeError"
| "on_rejected Null = Inl TypeError"
| "on_rejected (Thrown stk txt) =
     Inr (untouched
          \<lparr> written_head := Some (500, [''Content-Type'' \<mapsto> JStr ''text/plain'']),
            written_body := ''Internal Server Error'',
            ended := True,
            error_stream :=
              [(case stk of
                  None \<Rightarrow> txt
                | Some s \<Rightarrow> if s = [] then txt else s) @ [CHR 0x0A]] \<rparr>)"

text \<open>
  The listener of the \<^verbatim>\<open>request\<close> event, from the request that \<^verbatim>\<open>makeRequest\<close> built.
  The callbacks run once the call has settled, on the request as the app left it; an
  exception thrown by a callback is \<open>Inl\<close>: it rejects the promise \<^verbatim>\<open>then\<close> returned,
  which nothing observes.
\<close>

definition request_listener :: "(int \<Rightarrow> bool) \<Rightarrow> app \<Rightarrow> request \<Rightarrow> js_error + exchange" where
  "request_listener statusHasContent a request0 =
     (case request_call request0 a of
        (Fulfilled response, request) \<Rightarrow> Inr (on_fulfilled statusHasContent request response)
      | (Rejected error, request) \<Rightarrow> on_rejected error
      | (Pending, request) \<Rightarrow> Inr untouched)"

text \<open>
  Modelled from the spec: \<^verbatim>\<open>utils.statusHasContent\<close> is not part of the sources at hand.
  Section 6 names 204 and 304 as statuses defined to carry no body.
\<close>

definition utils_statusHasContent :: "int \<Rightarrow> bool" where
  "utils_statusHasContent s = (s \<noteq> 204 \<and> s \<noteq> 304)"


section \<open>Sample routers, apps and requests\<close>

text \<open>
  Concrete inputs on which the definitions are run: an app answering 200 with a fixed
  text, an app answering with a given response, an app whose deferred result rejects, two
  hand-made matchers (one matching every
  path, one matching the paths under \<^verbatim>\<open>/files/\<close> and capturing the rest), and routers
  given by their tables.
\<close>

definition text_app :: "string \<Rightarrow> app" where
  "text_app t =
     (\<lambda>rq. (Fulfilled \<lparr> status = 200, headers = Map.empty,
                         content = \<lparr> bytes = t, has_destroy = False \<rparr> \<rparr>, rq))"

definition reply_app :: "response \<Rightarrow> app" where
  "reply_app resp = (\<lambda>rq. (Fulfilled resp, rq))"

definition failing_app :: "reason \<Rightarrow> app" where
  "failing_app e = (\<lambda>rq. (Rejected e, rq))"

definition any_matcher :: matcher where
  "any_matcher = (\<lambda>s. Some (s, []))"

definition files_matcher :: matcher where
  "files_matcher =
     (\<lambda>s. if take 7 s = ''/files/'' then Some (s, [Some (drop 7 s)]) else None)"

definition sample_request :: "string \<Rightarrow> string \<Rightarrow> request" where
  "sample_request m p = \<lparr> method = m, pathInfo = p, route = None \<rparr>"

definition template_route :: "string \<Rightarrow> app \<Rightarrow> route_entry" where
  "template_route t a = make_route (fst (compileRoute t)) (snd (compileRoute t)) a"

definition get_router :: "route_entry list \<Rightarrow> router_state" where
  "get_router gets = \<lparr> defaultApp = utils_defaultApp, routes = [''GET'' \<mapsto> gets] \<rparr>"

definition get_any_router :: "route_entry list \<Rightarrow> route_entry list \<Rightarrow> router_state" where
  "get_any_router gets anys =
     \<lparr> defaultApp = utils_defaultApp, routes = [''GET'' \<mapsto> gets, ''ANY'' \<mapsto> anys] \<rparr>"

definition get_head_router :: "route_entry list \<Rightarrow> route_entry list \<Rightarrow> router_state" where
  "get_head_router gets heads =
     \<lparr> defaultApp = utils_defaultApp, routes = [''GET'' \<mapsto> gets, ''HEAD'' \<mapsto> heads] \<rparr>"

definition get_post_router :: "route_entry list \<Rightarrow> route_entry list \<Rightarrow> router_state" where
  "get_post_router gets posts =
     \<lparr> defaultApp = utils_defaultApp, routes = [''GET'' \<mapsto> gets, ''POST'' \<mapsto> posts] \<rparr>"

definition not_modified :: response where
  "not_modified =
     \<lparr> status = 304, headers = [''Content-Length'' \<mapsto> JStr ''5''],
       content = \<lparr> bytes = [], has_destroy = True \<rparr> \<rparr>"

definition motd :: response where
  "motd =
     \<lparr> status = 200, headers = [''Content-Length'' \<mapsto> JStr ''5''],
       content = \<lparr> bytes = ''trail'', has_destroy = True \<rparr> \<rparr>"


section \<open>Facts about the router\<close>

lemma router_loop_skip:
  "\<forall>x\<in>set pre. exec (pattern x) (pathInfo rq) = None \<Longrightarrow>
   router_loop (pre @ rest) d rq = router_loop rest d rq"
  by (induction pre) auto

text \<open>
  The first route of the sequence that matches decides: its app is called with the match
  attached, unless one of its accessors is named \<^verbatim>\<open>length\<close>, in which case the router
  throws.
\<close>

lemma router_first_match:
  assumes "bucket (routes st) (method rq) @ bucket (routes st) ''ANY'' = pre @ r # post"
      and "\<forall>x\<in>set pre. exec (pattern x) (pathInfo rq) = None"
      and "exec (pattern r) (pathInfo rq) = Some m"
      and "accessors r ''length'' = None"
  shows "router st rq =
           request_call (rq\<lparr>route := Some (with_accessors (utils_slice m 0) (accessors r))\<rparr>) (app r)"
  using assms by (simp add: router_def router_loop_skip defineProperties_def)

lemma router_first_match_throws:
  assumes "bucket (routes st) (method rq) @ bucket (routes st) ''ANY'' = pre @ r # post"
      and "\<forall>x\<in>set pre. exec (pattern x) (pathInfo rq) = None"
      and "exec (pattern r) (pathInfo rq) = Some m"
      and "accessors r ''length'' \<noteq> None"
  shows "router st rq = (Rejected (thrown TypeError), rq)"
  using assms by (simp add: router_def router_loop_skip defineProperties_def)

lemma router_no_match:
  assumes "\<forall>r\<in>set (bucket (routes st) (method rq) @ bucket (routes st) ''ANY'').
             exec (pattern r) (pathInfo rq) = None"
  shows "router st rq = request_call rq (defaultApp st)"
  using router_loop_skip [OF assms, of "[]" "defaultApp st"] by (simp add: router_def)

text \<open>Registration appends: a bucket keeps what it held, in order, the new route after it.\<close>

lemma bucket_push_route:
  "bucket (push_route r rts m) name =
     (if name = toUpperCase m then bucket rts name @ [r] else bucket rts name)"
  by (auto simp: push_route_def bucket_def Let_def split: option.splits)

lemma bucket_foldl_push:
  "bucket (foldl (push_route r) rts ms) name =
     bucket rts name @ replicate (count_list (map toUpperCase ms) name) r"
proof (induction ms arbitrary: rts)
  case Nil
  show ?case by simp
next
  case (Cons m ms)
  show ?case
    by (simp add: Cons.IH bucket_push_route replicate_append_same)
qed

lemma router_route_Inr:
  "router_route st pat a ms = Inr st' \<longleftrightarrow>
   (\<exists>re keys. compile_pattern pat = (JRegExp re, keys) \<and>
      st' = st\<lparr>routes := foldl (push_route (make_route re keys a)) (routes st)
                               (normalize_methods ms)\<rparr>)"
  by (cases "compile_pattern pat") (auto simp: router_route_def Let_def split: jsval.splits)

lemma router_route_bucket:
  assumes "router_route st pat a ms = Inr st'"
      and "compile_pattern pat = (JRegExp re, keys)"
  shows "bucket (routes st') name =
           bucket (routes st) name @
           replicate (count_list (map toUpperCase (normalize_methods ms)) name)
                     (make_route re keys a)"
  using assms by (auto simp: router_route_Inr bucket_foldl_push)

lemma router_route_defaultApp:
  "router_route st pat a ms = Inr st' \<Longrightarrow> defaultApp st' = defaultApp st"
  by (auto simp: router_route_Inr)

lemma router_verb_defaultApp:
  "router_verb v st pat a = Inr st' \<Longrightarrow> defaultApp st' = defaultApp st"
  by (simp add: router_verb_def router_route_defaultApp)

lemma apply_call_defaultApp:
  "apply_call st c = Inr st' \<Longrightarrow> \<not> is_run c \<Longrightarrow> defaultApp st' = defaultApp st"
  by (cases c) (auto simp: router_route_defaultApp router_verb_defaultApp)

lemma apply_calls_defaultApp:
  "apply_calls st cs = Inr st' \<Longrightarrow> \<forall>c\<in>set cs. \<not> is_run c \<Longrightarrow>
   defaultApp st' = defaultApp st"
proof (induction cs arbitrary: st)
  case Nil
  then show ?case by simp
next
  case (Cons c cs)
  from Cons.prems(1) obtain st1 where s1: "apply_call st c = Inr st1"
    and rest: "apply_calls st1 cs = Inr st'"
    by (auto split: sum.splits)
  have "defaultApp st1 = defaultApp st"
    using s1 Cons.prems(2) by (simp add: apply_call_defaultApp)
  moreover have "defaultApp st' = defaultApp st1"
    using rest Cons.prems(2) by (simp add: Cons.IH)
  ultimately show ?case by simp
qed

text \<open>The accessor table: a name stands for the index of its last occurrence.\<close>

lemma reduce_keys_other:
  "k \<notin> set keys \<Longrightarrow> reduce_keys memo index keys k = memo k"
  by (induction keys arbitrary: memo index) auto

lemma reduce_keys_member:
  "k \<in> set keys \<Longrightarrow> k \<noteq> ''__proto__'' \<Longrightarrow> reduce_keys memo index keys k \<noteq> None"
proof (induction keys arbitrary: memo index)
  case Nil
  then show ?case by simp
next
  case (Cons key keys)
  show ?case
  proof (cases "k \<in> set keys")
    case True
    then show ?thesis using Cons.IH Cons.prems(2) by simp
  next
    case False
    with Cons.prems have "key = k" by simp
    with False Cons.prems(2) show ?thesis by (simp add: reduce_keys_other)
  qed
qed

lemma reduce_keys_last:
  "i < length keys \<Longrightarrow> keys ! i \<notin> set (drop (Suc i) keys) \<Longrightarrow> keys ! i \<noteq> ''__proto__'' \<Longrightarrow>
   reduce_keys memo index keys (keys ! i) = Some (makeAccessorsForIndex (index + i))"
proof (induction keys arbitrary: memo index i)
  case Nil
  then show ?case by simp
next
  case (Cons key keys)
  show ?case
  proof (cases i)
    case 0
    with Cons.prems show ?thesis by (simp add: reduce_keys_other)
  next
    case (Suc j)
    with Cons.prems Cons.IH [of j] show ?thesis by simp
  qed
qed

lemma accessor_at_last_occurrence:
  assumes "i < length keys" and "keys ! i \<notin> set (drop (Suc i) keys)"
      and "keys ! i \<noteq> ''__proto__''"
  shows "props (with_accessors arr (reduce_keys Map.empty 0 keys)) (keys ! i) =
           Some (Accessor (makeAccessorsForIndex i))"
  using reduce_keys_last [OF assms, of Map.empty 0] by (simp add: with_accessors_def)

lemma make_route_length:
  "accessors (make_route re keys a) ''length'' = None \<longleftrightarrow> ''length'' \<notin> set keys"
  using reduce_keys_member [of "''length''" keys Map.empty 0]
        reduce_keys_other [of "''length''" keys Map.empty 0]
  by (auto simp: make_route_def)

text \<open>A compiled template captures one string for each of its keys.\<close>

lemma match_segments_length:
  "match_segments segs ps = Some caps \<Longrightarrow> length caps = length (segment_keys segs)"
  by (induction segs ps arbitrary: caps rule: match_segments.induct) (auto split: if_splits)

lemma compiled_match:
  assumes "compileRoute template = (re, keys)"
      and "exec re path = Some match"
  shows "\<exists>caps. match = JStr path # map JStr caps \<and> length caps = length keys"
proof -
  let ?segs = "map segment_of (split_path template)"
  from assms(1) have re: "re = (\<lambda>p. map_option (\<lambda>caps. (p, map Some caps))
                                  (match_segments ?segs (split_path p)))"
    and keys: "keys = segment_keys ?segs"
    by (auto simp: compileRoute_def Let_def)
  from assms(2) re obtain caps where caps: "match_segments ?segs (split_path path) = Some caps"
    and m: "match = JStr path # map capture (map Some caps)"
    by (auto simp: exec_def split: option.splits)
  have "map capture (map Some caps) = map JStr caps" by simp
  with m have "match = JStr path # map JStr caps" by (simp only:)
  moreover have "length caps = length keys"
    using caps keys by (simp add: match_segments_length)
  ultimately show ?thesis by blast
qed

text \<open>The listener answers a rejection whose reason is a value with the generic 500.\<close>

lemma listener_on_failure:
  assumes "a rq = (Rejected (Thrown stk txt), rq')"
  shows "\<exists>x. request_listener shc a rq = Inr x \<and>
             written_head x = Some (500, [''Content-Type'' \<mapsto> JStr ''text/plain'']) \<and>
             written_body x = ''Internal Server Error'' \<and> ended x"
  using assms by (simp add: request_listener_def request_call_def untouched_def)

text \<open>
  Routes registered in turn under one method: the first of them that matches is the one
  dispatched to, whatever the later ones match.
\<close>

lemma first_registered_route_wins:
  assumes "bucket (routes st0) (toUpperCase name) = []"
      and "compile_pattern p1 = (JRegExp re1, keys1)"
      and "router_route st0 p1 a1 (OneMethod name) = Inr st1"
      and "router_route st1 p2 a2 (OneMethod name) = Inr st2"
      and "router_route st2 p3 a3 (OneMethod name) = Inr st3"
      and "method rq = toUpperCase name"
      and "exec re1 (pathInfo rq) = Some m1"
      and "''length'' \<notin> set keys1"
  shows "router st3 rq =
           request_call
             (rq\<lparr>route := Some (with_accessors (utils_slice m1 0)
                                  (reduce_keys Map.empty 0 keys1))\<rparr>) a1"
proof -
  from assms(4,5) obtain re2 keys2 re3 keys3
    where c2: "compile_pattern p2 = (JRegExp re2, keys2)"
      and c3: "compile_pattern p3 = (JRegExp re3, keys3)"
    by (auto simp: router_route_Inr)
  let ?r1 = "make_route re1 keys1 a1"
  let ?r2 = "make_route re2 keys2 a2"
  let ?r3 = "make_route re3 keys3 a3"
  have b1: "bucket (routes st1) (toUpperCase name) = [?r1]"
    using assms(1) router_route_bucket [OF assms(3) assms(2), of "toUpperCase name"] by simp
  have b2: "bucket (routes st2) (toUpperCase name) = [?r1, ?r2]"
    using b1 router_route_bucket [OF assms(4) c2, of "toUpperCase name"] by simp
  have b3: "bucket (routes st3) (toUpperCase name) = [?r1, ?r2, ?r3]"
    using b2 router_route_bucket [OF assms(5) c3, of "toUpperCase name"] by simp
  have t1: "bucket (routes st3) (method rq) @ bucket (routes st3) ''ANY'' =
          [] @ ?r1 # ([?r2, ?r3] @ bucket (routes st3) ''ANY'')"
    using assms(6) b3 by simp
  have t2: "exec (pattern ?r1) (pathInfo rq) = Some m1"
    using assms(7) by (simp add: make_route_def)
  have t3: "accessors ?r1 ''length'' = None"
    using assms(8) by (simp add: make_route_length)
  have "router st3 rq =
      request_call (rq\<lparr>route := Some (with_accessors (utils_slice m1 0) (accessors ?r1))\<rparr>)
                   (app ?r1)"
    using router_first_match [OF t1 _ t2 t3] by simp
  then show ?thesis
    by (simp add: make_route_def)
qed

text \<open>
  A route registered with \<^verbatim>\<open>get\<close> is appended, as one and the same route, to the GET
  bucket and to the HEAD bucket; when none of its parameters is named \<^verbatim>\<open>length\<close>, a HEAD
  request that it matches, and that no route already in the HEAD bucket matches, is
  dispatched to its app. The listener transmits no body for a HEAD request.
\<close>

lemma get_route_in_both_buckets:
  assumes "router_verb Get st pat a = Inr st'"
      and "compile_pattern pat = (JRegExp re, keys)"
  shows "bucket (routes st') ''GET'' = bucket (routes st) ''GET'' @ [make_route re keys a]"
    and "bucket (routes st') ''HEAD'' = bucket (routes st) ''HEAD'' @ [make_route re keys a]"
proof -
  have rr: "router_route st pat a (Methods [''GET'', ''HEAD'']) = Inr st'"
    using assms(1) by (simp add: router_verb_def)
  have up: "map toUpperCase [''GET'', ''HEAD''] = [''GET'', ''HEAD'']"
    by (simp add: toUpperCase_def upper_char_def)
  show "bucket (routes st') ''GET'' = bucket (routes st) ''GET'' @ [make_route re keys a]"
    using router_route_bucket [OF rr assms(2), of "''GET''"] up by simp
  show "bucket (routes st') ''HEAD'' = bucket (routes st) ''HEAD'' @ [make_route re keys a]"
    using router_route_bucket [OF rr assms(2), of "''HEAD''"] up by simp
qed

lemma get_route_reached_by_head:
  assumes "router_verb Get st pat a = Inr st'"
      and "compile_pattern pat = (JRegExp re, keys)"
      and "''length'' \<notin> set keys"
      and "method rq = ''HEAD''"
      and "\<forall>x\<in>set (bucket (routes st) ''HEAD''). exec (pattern x) (pathInfo rq) = None"
      and "exec re (pathInfo rq) = Some m"
  shows "router st' rq =
           request_call
             (rq\<lparr>route := Some (with_accessors (utils_slice m 0)
                                  (reduce_keys Map.empty 0 keys))\<rparr>) a"
proof -
  let ?r = "make_route re keys a"
  have c1: "bucket (routes st') (method rq) @ bucket (routes st') ''ANY'' =
              bucket (routes st) ''HEAD'' @ ?r # bucket (routes st') ''ANY''"
    using assms(4) get_route_in_both_buckets(2) [OF assms(1,2)] by simp
  have c3: "exec (pattern ?r) (pathInfo rq) = Some m"
    using assms(6) by (simp add: make_route_def)
  have c4: "accessors ?r ''length'' = None"
    using assms(3) by (simp add: make_route_length)
  show ?thesis
    using router_first_match [OF c1 assms(5) c3 c4] by (simp add: make_route_def)
qed

lemma head_response_has_no_body:
  "method rq = ''HEAD'' \<Longrightarrow> written_body (on_fulfilled shc rq resp) = []"
  by (simp add: on_fulfilled_def untouched_def Let_def)

text \<open>A script run in two parts.\<close>

lemma apply_calls_append:
  "apply_calls st (cs @ cs') =
     (case apply_calls st cs of Inl e \<Rightarrow> Inl e | Inr s \<Rightarrow> apply_calls s cs')"
  by (induction cs arbitrary: st) (auto split: sum.splits)

lemma apply_calls_after_run:
  assumes "apply_calls st (cs @ CallRun d # cs') = Inr st'"
      and "\<forall>c\<in>set cs'. \<not> is_run c"
  shows "defaultApp st' = d"
proof -
  from assms(1) obtain s where "apply_calls st cs = Inr s"
    and rest: "apply_calls (router_run s d) cs' = Inr st'"
    by (auto simp: apply_calls_append split: sum.splits)
  from apply_calls_defaultApp [OF rest assms(2)] show ?thesis
    by (simp add: router_run_def)
qed


section \<open>Dispatch order\<close>

text \<open>
  Claim C1, at the input where the code departs from it. The router tries the bucket of
  \<^verbatim>\<open>request.method\<close> and then the wildcard bucket, each in its stored order, and stops at
  the first route whose matcher succeeds on \<^verbatim>\<open>request.pathInfo\<close>. When that route was
  compiled with a parameter named \<^verbatim>\<open>length\<close>, \<^verbatim>\<open>Object.defineProperties\<close> throws a
  TypeError there: the router throws, \<^verbatim>\<open>request.route\<close> is not assigned, and neither the
  app of that route nor that of any later route nor the default app is called. (For a
  first matching route without such a parameter the app is called with the match
  attached: \<open>router_first_match\<close>, \<open>first_registered_route_wins\<close>.)
\<close>

theorem length_parameter_stops_dispatch:
  assumes "bucket (routes st) (method rq) @ bucket (routes st) ''ANY'' = pre @ r # post"
      and "\<forall>x\<in>set pre. exec (pattern x) (pathInfo rq) = None"
      and "exec (pattern r) (pathInfo rq) = Some m"
      and "r = make_route re keys a"
      and "''length'' \<in> set keys"
  shows "router st rq = (Rejected (thrown TypeError), rq)"
proof -
  have "accessors r ''length'' \<noteq> None"
    using assms(4,5) by (simp add: make_route_length)
  then show ?thesis
    using router_first_match_throws [OF assms(1,2,3)] by simp
qed

text \<open>
  \<^verbatim>\<open>/:length\<close> registered first under GET and a matcher for every path after it, for
  \<^verbatim>\<open>GET /5\<close>: both match, the router throws, and the listener answers 500.
\<close>

theorem length_parameter_stops_dispatch_witness:
  "bucket (routes (get_router [template_route ''/:length'' (text_app ''first''),
                               make_route any_matcher [] (text_app ''any'')]))
          (method (sample_request ''GET'' ''/5'')) @
   bucket (routes (get_router [template_route ''/:length'' (text_app ''first''),
                               make_route any_matcher [] (text_app ''any'')])) ''ANY'' =
     [] @ template_route ''/:length'' (text_app ''first'') #
          [make_route any_matcher [] (text_app ''any'')] \<and>
   exec (pattern (template_route ''/:length'' (text_app ''first'')))
        (pathInfo (sample_request ''GET'' ''/5'')) = Some [JStr ''/5'', JStr ''5''] \<and>
   exec (pattern (make_route any_matcher [] (text_app ''any'')))
        (pathInfo (sample_request ''GET'' ''/5'')) = Some [JStr ''/5''] \<and>
   snd (compileRoute ''/:length'') = [''length''] \<and>
   router (get_router [template_route ''/:length'' (text_app ''first''),
                       make_route any_matcher [] (text_app ''any'')])
          (sample_request ''GET'' ''/5'') =
     (Rejected (thrown TypeError), sample_request ''GET'' ''/5'') \<and>
   request_listener utils_statusHasContent
     (router (get_router [template_route ''/:length'' (text_app ''first''),
                          make_route any_matcher [] (text_app ''any'')]))
     (sample_request ''GET'' ''/5'') =
     Inr \<lparr> written_head = Some (500, [''Content-Type'' \<mapsto> JStr ''text/plain'']),
           written_body = ''Internal Server Error'', ended = True,
           error_stream = [''TypeError'' @ [CHR 0x0A]], destroyed = False \<rparr>"
proof -
  let ?len = "template_route ''/:length'' (text_app ''first'')"
  let ?any = "make_route any_matcher [] (text_app ''any'')"
  let ?st = "get_router [?len, ?any]"
  let ?rq = "sample_request ''GET'' ''/5''"
  have h1: "bucket (routes ?st) (method ?rq) @ bucket (routes ?st) ''ANY'' = [] @ ?len # [?any]"
    by (simp add: get_router_def sample_request_def bucket_def)
  have h2: "\<forall>x\<in>set []. exec (pattern x) (pathInfo ?rq) = None"
    by simp
  have h3: "exec (pattern ?len) (pathInfo ?rq) = Some [JStr ''/5'', JStr ''5'']"
    by (simp add: template_route_def make_route_def sample_request_def exec_def compileRoute_def)
  have h3': "exec (pattern ?any) (pathInfo ?rq) = Some [JStr ''/5'']"
    by (simp add: make_route_def sample_request_def exec_def any_matcher_def)
  have h4: "?len = make_route (fst (compileRoute ''/:length'')) (snd (compileRoute ''/:length''))
                              (text_app ''first'')"
    by (simp add: template_route_def)
  have k: "snd (compileRoute ''/:length'') = [''length'']"
    by (simp add: compileRoute_def)
  then have h5: "''length'' \<in> set (snd (compileRoute ''/:length''))"
    by simp
  have c: "router ?st ?rq = (Rejected (thrown TypeError), ?rq)"
    using length_parameter_stops_dispatch [OF h1 h2 h3 h4 h5] .
  have l: "request_listener utils_statusHasContent (router ?st) ?rq =
     Inr \<lparr> written_head = Some (500, [''Content-Type'' \<mapsto> JStr ''text/plain'']),
           written_body = ''Internal Server Error'', ended = True,
           error_stream = [''TypeError'' @ [CHR 0x0A]], destroyed = False \<rparr>"
    by (simp add: request_listener_def request_call_def c untouched_def)
  from h1 h3 h3' k c l show ?thesis by blast
qed


section \<open>Named captures\<close>

text \<open>
  Claim C2, as amended. For a route compiled from a template with \<open>n\<close> keys, none of them
  \<^verbatim>\<open>length\<close> or an array index, a successful match makes the router call the route's app
  with \<^verbatim>\<open>request.route\<close> set to an array of length \<open>n + 1\<close> whose index 0 is the whole match
  (here the path); and every key other than \<^verbatim>\<open>__proto__\<close> that does not occur again later
  in the key list is an accessor for the slot one past its ordinal: reading it gives the
  value at that slot, and writing through it is the write to that slot by its numeric
  index, after which the slot holds the value written. What the code does with the names
  set aside here is neither promised nor denied.
\<close>

theorem named_accessor_aliases_slot:
  assumes "compileRoute template = (re, keys)"
      and "r = make_route re keys a"
      and "exec (pattern r) (pathInfo rq) = Some match"
      and "rd = with_accessors (utils_slice match 0) (accessors r)"
      and "''length'' \<notin> set keys"
      and "\<forall>k\<in>set keys. \<not> is_array_index k"
  shows "router_loop (r # rest) d rq = request_call (rq\<lparr>route := Some rd\<rparr>) a \<and>
         length (slots rd) = length keys + 1 \<and>
         index_get rd 0 = JStr (pathInfo rq) \<and>
         (\<forall>i v. i < length keys \<and> keys ! i \<notin> set (drop (Suc i) keys) \<and>
                keys ! i \<noteq> ''__proto__'' \<longrightarrow>
            prop_get rd (keys ! i) = index_get rd (i + 1) \<and>
            prop_set rd (keys ! i) v = index_set rd (i + 1) v \<and>
            index_get (prop_set rd (keys ! i) v) (i + 1) = v)"
proof -
  have ex: "exec re (pathInfo rq) = Some match"
    using assms(2,3) by (simp add: make_route_def)
  from compiled_match [OF assms(1) ex] obtain caps
    where m: "match = JStr (pathInfo rq) # map JStr caps" and len: "length caps = length keys"
    by blast
  have sl: "slots rd = match"
    and pr: "props rd = props (with_accessors match (reduce_keys Map.empty 0 keys))"
    using assms(2,4) by (simp_all add: with_accessors_def utils_slice_def make_route_def)
  have nl: "accessors r ''length'' = None"
    using assms(2,5) by (simp add: make_route_length)
  have loop: "router_loop (r # rest) d rq = request_call (rq\<lparr>route := Some rd\<rparr>) a"
    using assms(2,3,4) nl by (simp add: make_route_def defineProperties_def)
  have l: "length (slots rd) = length keys + 1"
    using sl m len by simp
  have z: "index_get rd 0 = JStr (pathInfo rq)"
    using sl m by (simp add: index_get_def array_get_def)
  have named: "prop_get rd (keys ! i) = index_get rd (i + 1) \<and>
            prop_set rd (keys ! i) v = index_set rd (i + 1) v \<and>
            index_get (prop_set rd (keys ! i) v) (i + 1) = v"
    if "i < length keys" and "keys ! i \<notin> set (drop (Suc i) keys)"
      and "keys ! i \<noteq> ''__proto__''" for i v
  proof -
    have p: "props rd (keys ! i) = Some (Accessor (makeAccessorsForIndex i))"
      using pr accessor_at_last_occurrence [OF that] by simp
    have inr: "i + 1 < length (slots rd)" using l that(1) by simp
    show ?thesis
      using p inr
      by (simp add: prop_get_def prop_set_def index_get_def index_set_def
            makeAccessorsForIndex_def array_get_def array_set_def)
  qed
  from loop l z named show ?thesis by blast
qed

text \<open>
  On \<^verbatim>\<open>/users/:id\<close> and the path \<^verbatim>\<open>/users/42\<close>: the array is
  \<^verbatim>\<open>['/users/42', '42']\<close>, \<^verbatim>\<open>route.id\<close> reads \<^verbatim>\<open>'42'\<close>, and after
  \<^verbatim>\<open>route.id = '43'\<close> index 1 holds \<^verbatim>\<open>'43'\<close>.
\<close>

theorem named_accessor_aliases_slot_witness:
  "compileRoute ''/users/:id'' =
     (fst (compileRoute ''/users/:id''), snd (compileRoute ''/users/:id'')) \<and>
   snd (compileRoute ''/users/:id'') = [''id''] \<and>
   exec (pattern (template_route ''/users/:id'' (text_app ''user'')))
        (pathInfo (sample_request ''GET'' ''/users/42'')) = Some [JStr ''/users/42'', JStr ''42''] \<and>
   ''length'' \<notin> set (snd (compileRoute ''/users/:id'')) \<and>
   \<not> is_array_index ''id'' \<and>
   (0::nat) < length (snd (compileRoute ''/users/:id'')) \<and>
   snd (compileRoute ''/users/:id'') ! 0 \<notin> set (drop (Suc 0) (snd (compileRoute ''/users/:id''))) \<and>
   snd (compileRoute ''/users/:id'') ! 0 \<noteq> ''__proto__'' \<and>
   defineProperties (utils_slice [JStr ''/users/42'', JStr ''42''] 0)
                    (accessors (template_route ''/users/:id'' (text_app ''user''))) =
     Inr (with_accessors (utils_slice [JStr ''/users/42'', JStr ''42''] 0)
                         (accessors (template_route ''/users/:id'' (text_app ''user'')))) \<and>
   router_loop [template_route ''/users/:id'' (text_app ''user'')] utils_defaultApp
               (sample_request ''GET'' ''/users/42'') =
     request_call
       ((sample_request ''GET'' ''/users/42'')
          \<lparr>route := Some (with_accessors (utils_slice [JStr ''/users/42'', JStr ''42''] 0)
                           (accessors (template_route ''/users/:id'' (text_app ''user''))))\<rparr>)
       (text_app ''user'') \<and>
   length (slots (with_accessors (utils_slice [JStr ''/users/42'', JStr ''42''] 0)
                    (accessors (template_route ''/users/:id'' (text_app ''user''))))) = 2 \<and>
   index_get (with_accessors (utils_slice [JStr ''/users/42'', JStr ''42''] 0)
                (accessors (template_route ''/users/:id'' (text_app ''user'')))) 0 =
     JStr ''/users/42'' \<and>
   prop_get (with_accessors (utils_slice [JStr ''/users/42'', JStr ''42''] 0)
               (accessors (template_route ''/users/:id'' (text_app ''user'')))) ''id'' =
     JStr ''42'' \<and>
   index_get
     (prop_set (with_accessors (utils_slice [JStr ''/users/42'', JStr ''42''] 0)
                  (accessors (template_route ''/users/:id'' (text_app ''user''))))
               ''id'' (JStr ''43'')) 1 = JStr ''43''"
proof -
  let ?t = "''/users/:id''"
  let ?r = "template_route ?t (text_app ''user'')"
  let ?rq = "sample_request ''GET'' ''/users/42''"
  let ?m = "[JStr ''/users/42'', JStr ''42'']"
  let ?rd = "with_accessors (utils_slice ?m 0) (accessors ?r)"
  have h1: "compileRoute ?t = (fst (compileRoute ?t), snd (compileRoute ?t))"
    by simp
  have h2: "?r = make_route (fst (compileRoute ?t)) (snd (compileRoute ?t)) (text_app ''user'')"
    by (simp add: template_route_def)
  have h3: "exec (pattern ?r) (pathInfo ?rq) = Some ?m"
    by (simp add: template_route_def make_route_def sample_request_def exec_def compileRoute_def)
  have k: "snd (compileRoute ?t) = [''id'']"
    by (simp add: compileRoute_def)
  have h5: "''length'' \<notin> set (snd (compileRoute ?t))"
    by (simp add: k)
  have h6: "\<not> is_array_index ''id''"
    by (simp add: is_array_index_def)
  then have h6': "\<forall>k\<in>set (snd (compileRoute ?t)). \<not> is_array_index k"
    by (simp add: k)
  have i1: "(0::nat) < length (snd (compileRoute ?t))"
    and i2: "snd (compileRoute ?t) ! 0 \<notin> set (drop (Suc 0) (snd (compileRoute ?t)))"
    and i3: "snd (compileRoute ?t) ! 0 \<noteq> ''__proto__''"
    by (simp_all add: k)
  have dp: "defineProperties (utils_slice ?m 0) (accessors ?r) = Inr ?rd"
    using h5 by (simp add: defineProperties_def template_route_def make_route_length)
  note inst = named_accessor_aliases_slot
      [OF h1 h2 h3 refl h5 h6', where rest = "[]" and d = utils_defaultApp]
  have c1: "router_loop [?r] utils_defaultApp ?rq =
      request_call (?rq\<lparr>route := Some ?rd\<rparr>) (text_app ''user'')"
    using inst by blast
  have c2: "length (slots ?rd) = 2"
    using inst k by simp
  have c3: "index_get ?rd 0 = JStr ''/users/42''"
    using inst by (simp add: sample_request_def)
  have named: "prop_get ?rd (snd (compileRoute ?t) ! 0) = index_get ?rd (0 + 1) \<and>
      index_get (prop_set ?rd (snd (compileRoute ?t) ! 0) (JStr ''43'')) (0 + 1) = JStr ''43''"
    using inst i1 i2 i3 by blast
  have c4: "prop_get ?rd ''id'' = JStr ''42''"
    using named k by (simp add: index_get_def array_get_def with_accessors_def utils_slice_def)
  have c5: "index_get (prop_set ?rd ''id'' (JStr ''43'')) 1 = JStr ''43''"
    using named k by simp
  from h1 k h3 h5 h6 i1 i2 i3 dp c1 c2 c3 c4 c5 show ?thesis by blast
qed

text \<open>
  Claim C2 as stated fails when a name occurs twice. The template \<^verbatim>\<open>/:a/:a\<close> has the keys
  \<^verbatim>\<open>a, a\<close>; on \<^verbatim>\<open>/x/y\<close> the array is \<^verbatim>\<open>['/x/y', 'x', 'y']\<close> and the accessors are
  defined on it. The name at ordinal 0 is \<^verbatim>\<open>a\<close>, slot 1 holds \<^verbatim>\<open>'x'\<close>, but \<^verbatim>\<open>route.a\<close>
  reads \<^verbatim>\<open>'y'\<close>, and \<^verbatim>\<open>route.a = 'z'\<close> leaves slot 1 as it was and changes slot 2.
\<close>

theorem named_accessor_counterexample:
  "snd (compileRoute ''/:a/:a'') = [''a'', ''a''] \<and>
   snd (compileRoute ''/:a/:a'') ! 0 = ''a'' \<and>
   exec (pattern (template_route ''/:a/:a'' (text_app ''pair''))) ''/x/y'' =
     Some [JStr ''/x/y'', JStr ''x'', JStr ''y''] \<and>
   defineProperties (utils_slice [JStr ''/x/y'', JStr ''x'', JStr ''y''] 0)
                    (accessors (template_route ''/:a/:a'' (text_app ''pair''))) =
     Inr (with_accessors (utils_slice [JStr ''/x/y'', JStr ''x'', JStr ''y''] 0)
                         (accessors (template_route ''/:a/:a'' (text_app ''pair'')))) \<and>
   index_get (with_accessors (utils_slice [JStr ''/x/y'', JStr ''x'', JStr ''y''] 0)
                (accessors (template_route ''/:a/:a'' (text_app ''pair'')))) (0 + 1) = JStr ''x'' \<and>
   prop_get (with_accessors (utils_slice [JStr ''/x/y'', JStr ''x'', JStr ''y''] 0)
               (accessors (template_route ''/:a/:a'' (text_app ''pair'')))) ''a'' = JStr ''y'' \<and>
   prop_get (with_accessors (utils_slice [JStr ''/x/y'', JStr ''x'', JStr ''y''] 0)
               (accessors (template_route ''/:a/:a'' (text_app ''pair''))))
            (snd (compileRoute ''/:a/:a'') ! 0) \<noteq>
   index_get (with_accessors (utils_slice [JStr ''/x/y'', JStr ''x'', JStr ''y''] 0)
                (accessors (template_route ''/:a/:a'' (text_app ''pair'')))) (0 + 1) \<and>
   slots (prop_set (with_accessors (utils_slice [JStr ''/x/y'', JStr ''x'', JStr ''y''] 0)
                      (accessors (template_route ''/:a/:a'' (text_app ''pair''))))
                   ''a'' (JStr ''z'')) = [JStr ''/x/y'', JStr ''x'', JStr ''z'']"
proof -
  have k: "snd (compileRoute ''/:a/:a'') = [''a'', ''a'']"
    by (simp add: compileRoute_def)
  have acc: "accessors (template_route ''/:a/:a'' (text_app ''pair'')) ''a'' =
      Some (makeAccessorsForIndex 1)"
    by (simp add: template_route_def make_route_def k)
  have nl: "accessors (template_route ''/:a/:a'' (text_app ''pair'')) ''length'' = None"
    by (simp add: template_route_def make_route_def k)
  have e: "exec (pattern (template_route ''/:a/:a'' (text_app ''pair''))) ''/x/y'' =
      Some [JStr ''/x/y'', JStr ''x'', JStr ''y'']"
    by (simp add: template_route_def make_route_def exec_def compileRoute_def)
  show ?thesis
    using acc nl e
    by (simp add: k prop_get_def prop_set_def index_get_def with_accessors_def utils_slice_def
          defineProperties_def makeAccessorsForIndex_def array_get_def array_set_def)
qed


section \<open>Responses without a body\<close>

text \<open>
  Claim C3, as amended. When the app's deferred result is a response, the listener writes
  what its first callback writes for the request as the app left it. When that request is
  a HEAD request, or the status of the response is one without content, no byte of the body
  is transmitted. On a HEAD request the status and the headers are written as the app gave
  them, Content-Length included; on any other request with a status without content they
  are written with Content-Length set to 0.
\<close>

theorem empty_body_content_length:
  assumes "a rq0 = (Fulfilled resp, rq)"
  shows "request_listener shc a rq0 = Inr (on_fulfilled shc rq resp) \<and>
         (method rq = ''HEAD'' \<longrightarrow>
            written_body (on_fulfilled shc rq resp) = [] \<and>
            written_head (on_fulfilled shc rq resp) = Some (status resp, headers resp)) \<and>
         (method rq \<noteq> ''HEAD'' \<and> \<not> shc (status resp) \<longrightarrow>
            written_body (on_fulfilled shc rq resp) = [] \<and>
            written_head (on_fulfilled shc rq resp) =
              Some (status resp, (headers resp)(''Content-Length'' \<mapsto> JNum 0)))"
proof -
  have "request_listener shc a rq0 = Inr (on_fulfilled shc rq resp)"
    using assms by (simp add: request_listener_def request_call_def)
  moreover have "written_body (on_fulfilled shc rq resp) = [] \<and>
      written_head (on_fulfilled shc rq resp) = Some (status resp, headers resp)"
    if "method rq = ''HEAD''"
    using that by (simp add: on_fulfilled_def untouched_def Let_def)
  moreover have "written_body (on_fulfilled shc rq resp) = [] \<and>
      written_head (on_fulfilled shc rq resp) =
        Some (status resp, (headers resp)(''Content-Length'' \<mapsto> JNum 0))"
    if "method rq \<noteq> ''HEAD'' \<and> \<not> shc (status resp)"
    using that by (simp add: on_fulfilled_def untouched_def Let_def)
  ultimately show ?thesis by blast
qed

text \<open>
  A HEAD request answered 200 with five bytes and \<^verbatim>\<open>Content-Length: 5\<close>, and a GET request
  answered 304 with \<^verbatim>\<open>Content-Length: 5\<close>.
\<close>

theorem empty_body_content_length_witness:
  "reply_app motd (sample_request ''HEAD'' ''/motd'') =
     (Fulfilled motd, sample_request ''HEAD'' ''/motd'') \<and>
   method (sample_request ''HEAD'' ''/motd'') = ''HEAD'' \<and>
   request_listener utils_statusHasContent (reply_app motd) (sample_request ''HEAD'' ''/motd'') =
     Inr \<lparr> written_head = Some (200, [''Content-Length'' \<mapsto> JStr ''5'']), written_body = [],
           ended = True, error_stream = [], destroyed = True \<rparr> \<and>
   reply_app not_modified (sample_request ''GET'' ''/motd'') =
     (Fulfilled not_modified, sample_request ''GET'' ''/motd'') \<and>
   method (sample_request ''GET'' ''/motd'') \<noteq> ''HEAD'' \<and>
   \<not> utils_statusHasContent (status not_modified) \<and>
   written_body (on_fulfilled utils_statusHasContent (sample_request ''GET'' ''/motd'') not_modified)
     = [] \<and>
   written_header (on_fulfilled utils_statusHasContent (sample_request ''GET'' ''/motd'') not_modified)
     ''Content-Length'' = Some (JNum 0)"
proof -
  let ?head = "sample_request ''HEAD'' ''/motd''"
  let ?get = "sample_request ''GET'' ''/motd''"
  have g1: "reply_app motd ?head = (Fulfilled motd, ?head)"
    and g2: "reply_app not_modified ?get = (Fulfilled not_modified, ?get)"
    by (simp_all add: reply_app_def)
  have h1: "method ?head = ''HEAD''"
    by (simp add: sample_request_def)
  have h2: "method ?get \<noteq> ''HEAD''" and h3: "\<not> utils_statusHasContent (status not_modified)"
    by (simp_all add: sample_request_def utils_statusHasContent_def not_modified_def)
  note head = empty_body_content_length
      [where a = "reply_app motd" and ?rq0.0 = ?head and resp = motd and rq = ?head
         and shc = utils_statusHasContent]
  note get = empty_body_content_length
      [where a = "reply_app not_modified" and ?rq0.0 = ?get and resp = not_modified
         and rq = ?get and shc = utils_statusHasContent]
  have a: "request_listener utils_statusHasContent (reply_app motd) ?head =
             Inr (on_fulfilled utils_statusHasContent ?head motd)"
    using head g1 by blast
  have a': "on_fulfilled utils_statusHasContent ?head motd =
      \<lparr> written_head = Some (200, [''Content-Length'' \<mapsto> JStr ''5'']), written_body = [],
        ended = True, error_stream = [], destroyed = True \<rparr>"
    by (simp add: on_fulfilled_def untouched_def sample_request_def motd_def)
  have b: "written_body (on_fulfilled utils_statusHasContent ?get not_modified) = [] \<and>
           written_head (on_fulfilled utils_statusHasContent ?get not_modified) =
             Some (status not_modified, (headers not_modified)(''Content-Length'' \<mapsto> JNum 0))"
    using get g2 h2 h3 by blast
  have b': "written_header (on_fulfilled utils_statusHasContent ?get not_modified)
      ''Content-Length'' = Some (JNum 0)"
    using b by (simp add: written_header_def)
  from g1 h1 a a' g2 h2 h3 b b' show ?thesis by simp
qed

text \<open>
  Claim C3 as stated fails for a status without content on a request that is not HEAD: a
  GET request answered 304 with \<^verbatim>\<open>Content-Length: 5\<close> is transmitted without a body and
  with Content-Length 0, not 5.
\<close>

theorem content_length_counterexample:
  "method (sample_request ''GET'' ''/motd'') = ''GET'' \<and>
   status not_modified = 304 \<and>
   \<not> utils_statusHasContent (status not_modified) \<and>
   headers not_modified ''Content-Length'' = Some (JStr ''5'') \<and>
   request_listener utils_statusHasContent (reply_app not_modified)
     (sample_request ''GET'' ''/motd'') =
     Inr \<lparr> written_head = Some (304, [''Content-Length'' \<mapsto> JNum 0]), written_body = [],
           ended = True, error_stream = [], destroyed = True \<rparr> \<and>
   written_header (on_fulfilled utils_statusHasContent (sample_request ''GET'' ''/motd'') not_modified)
     ''Content-Length'' \<noteq> headers not_modified ''Content-Length''"
  by (simp add: sample_request_def not_modified_def utils_statusHasContent_def reply_app_def
        request_listener_def request_call_def on_fulfilled_def untouched_def written_header_def)


section \<open>The default app\<close>

text \<open>
  Claim C4. When no route in the bucket of the request's method nor in the wildcard bucket
  matches the path, dispatch is the call of the router's default app on the request. That
  app is the one given to the last \<^verbatim>\<open>run\<close> of the configuration, whatever the constructor
  was given; without any \<^verbatim>\<open>run\<close> it is the app given to the constructor; and on a router
  made without a default app and configured without \<^verbatim>\<open>run\<close> it is the built-in one: the
  dispatch resolves, to its 404 response.
\<close>

theorem fallthrough_to_default:
  "((\<forall>r\<in>set (bucket (routes st) (method rq) @ bucket (routes st) ''ANY'').
       exec (pattern r) (pathInfo rq) = None)
    \<longrightarrow> router st rq = request_call rq (defaultApp st)) \<and>
   (apply_calls (makeRouter None) calls = Inr st \<and> (\<forall>c\<in>set calls. \<not> is_run c) \<and>
    (\<forall>r\<in>set (bucket (routes st) (method rq) @ bucket (routes st) ''ANY'').
       exec (pattern r) (pathInfo rq) = None)
    \<longrightarrow> router st rq = request_call rq utils_defaultApp \<and>
        (\<exists>resp. router st rq = (Fulfilled resp, rq) \<and> status resp = 404)) \<and>
   (apply_calls (makeRouter (Some d1)) calls1 = Inr st1 \<and> (\<forall>c\<in>set calls1. \<not> is_run c) \<and>
    (\<forall>r\<in>set (bucket (routes st1) (method rq) @ bucket (routes st1) ''ANY'').
       exec (pattern r) (pathInfo rq) = None)
    \<longrightarrow> router st1 rq = request_call rq d1) \<and>
   (apply_calls (makeRouter arg) (calls2 @ CallRun d2 # calls3) = Inr st2 \<and>
    (\<forall>c\<in>set calls3. \<not> is_run c) \<and>
    (\<forall>r\<in>set (bucket (routes st2) (method rq) @ bucket (routes st2) ''ANY'').
       exec (pattern r) (pathInfo rq) = None)
    \<longrightarrow> router st2 rq = request_call rq d2)"
proof (intro conjI impI)
  assume "\<forall>r\<in>set (bucket (routes st) (method rq) @ bucket (routes st) ''ANY'').
       exec (pattern r) (pathInfo rq) = None"
  then show "router st rq = request_call rq (defaultApp st)"
    by (rule router_no_match)
next
  assume h: "apply_calls (makeRouter None) calls = Inr st \<and> (\<forall>c\<in>set calls. \<not> is_run c) \<and>
    (\<forall>r\<in>set (bucket (routes st) (method rq) @ bucket (routes st) ''ANY'').
       exec (pattern r) (pathInfo rq) = None)"
  then have "defaultApp st = defaultApp (makeRouter None)"
    using apply_calls_defaultApp by blast
  then have d: "defaultApp st = utils_defaultApp"
    by (simp add: makeRouter_def)
  from h have r: "router st rq = request_call rq (defaultApp st)"
    by (simp add: router_no_match)
  from r d show "router st rq = request_call rq utils_defaultApp" by simp
  from r d show "\<exists>resp. router st rq = (Fulfilled resp, rq) \<and> status resp = 404"
    by (simp add: request_call_def utils_defaultApp_def)
next
  assume h: "apply_calls (makeRouter (Some d1)) calls1 = Inr st1 \<and>
    (\<forall>c\<in>set calls1. \<not> is_run c) \<and>
    (\<forall>r\<in>set (bucket (routes st1) (method rq) @ bucket (routes st1) ''ANY'').
       exec (pattern r) (pathInfo rq) = None)"
  then have "defaultApp st1 = defaultApp (makeRouter (Some d1))"
    using apply_calls_defaultApp by blast
  then have "defaultApp st1 = d1"
    by (simp add: makeRouter_def)
  with h show "router st1 rq = request_call rq d1"
    by (simp add: router_no_match)
next
  assume h: "apply_calls (makeRouter arg) (calls2 @ CallRun d2 # calls3) = Inr st2 \<and>
    (\<forall>c\<in>set calls3. \<not> is_run c) \<and>
    (\<forall>r\<in>set (bucket (routes st2) (method rq) @ bucket (routes st2) ''ANY'').
       exec (pattern r) (pathInfo rq) = None)"
  then have "defaultApp st2 = d2"
    using apply_calls_after_run by blast
  with h show "router st2 rq = request_call rq d2"
    by (simp add: router_no_match)
qed

text \<open>
  Routers serving \<^verbatim>\<open>/users/:id\<close> under GET and HEAD, asked for \<^verbatim>\<open>GET /\<close>, which that route
  does not match: one made by \<^verbatim>\<open>makeRouter()\<close>, one made by \<^verbatim>\<open>makeRouter(app)\<close>, and
  one made by \<^verbatim>\<open>makeRouter(app)\<close> on which \<^verbatim>\<open>run\<close> is called with another app after the
  route is registered.
\<close>

theorem fallthrough_to_default_witness:
  "apply_calls (makeRouter None) [CallVerb Get (JStr ''/users/:id'') (text_app ''user'')] =
     Inr (get_head_router [template_route ''/users/:id'' (text_app ''user'')]
                          [template_route ''/users/:id'' (text_app ''user'')]) \<and>
   \<not> is_run (CallVerb Get (JStr ''/users/:id'') (text_app ''user'')) \<and>
   exec (pattern (template_route ''/users/:id'' (text_app ''user'')))
        (pathInfo (sample_request ''GET'' ''/'')) = None \<and>
   router (get_head_router [template_route ''/users/:id'' (text_app ''user'')]
                           [template_route ''/users/:id'' (text_app ''user'')])
          (sample_request ''GET'' ''/'') =
     request_call (sample_request ''GET'' ''/'')
       (defaultApp (get_head_router [template_route ''/users/:id'' (text_app ''user'')]
                                    [template_route ''/users/:id'' (text_app ''user'')])) \<and>
   router (get_head_router [template_route ''/users/:id'' (text_app ''user'')]
                           [template_route ''/users/:id'' (text_app ''user'')])
          (sample_request ''GET'' ''/'') =
     (Fulfilled \<lparr> status = 404, headers = [''Content-Type'' \<mapsto> JStr ''text/plain''],
                  content = \<lparr> bytes = ''Not Found'', has_destroy = False \<rparr> \<rparr>,
      sample_request ''GET'' ''/'') \<and>
   apply_calls (makeRouter (Some (text_app ''mine'')))
               [CallVerb Get (JStr ''/users/:id'') (text_app ''user'')] =
     Inr (router_run (get_head_router [template_route ''/users/:id'' (text_app ''user'')]
                                      [template_route ''/users/:id'' (text_app ''user'')])
                     (text_app ''mine'')) \<and>
   router (router_run (get_head_router [template_route ''/users/:id'' (text_app ''user'')]
                                       [template_route ''/users/:id'' (text_app ''user'')])
                      (text_app ''mine''))
          (sample_request ''GET'' ''/'') =
     request_call (sample_request ''GET'' ''/'') (text_app ''mine'') \<and>
   apply_calls (makeRouter (Some (text_app ''mine'')))
               ([CallVerb Get (JStr ''/users/:id'') (text_app ''user'')] @
                CallRun (text_app ''other'') # []) =
     Inr (router_run (get_head_router [template_route ''/users/:id'' (text_app ''user'')]
                                      [template_route ''/users/:id'' (text_app ''user'')])
                     (text_app ''other'')) \<and>
   router (router_run (get_head_router [template_route ''/users/:id'' (text_app ''user'')]
                                       [template_route ''/users/:id'' (text_app ''user'')])
                      (text_app ''other''))
          (sample_request ''GET'' ''/'') =
     request_call (sample_request ''GET'' ''/'') (text_app ''other'')"
proof -
  let ?r = "template_route ''/users/:id'' (text_app ''user'')"
  let ?st = "get_head_router [?r] [?r]"
  let ?st1 = "router_run ?st (text_app ''mine'')"
  let ?st2 = "router_run ?st (text_app ''other'')"
  let ?rq = "sample_request ''GET'' ''/''"
  let ?c = "CallVerb Get (JStr ''/users/:id'') (text_app ''user'')"
  have h1: "apply_calls (makeRouter None) [?c] = Inr ?st"
    by (simp add: router_verb_def router_route_def makeRouter_def get_head_router_def
          template_route_def push_route_def toUpperCase_def upper_char_def)
  have h1a: "apply_calls (makeRouter (Some (text_app ''mine''))) [?c] = Inr ?st1"
    by (simp add: router_verb_def router_route_def makeRouter_def get_head_router_def
          router_run_def template_route_def push_route_def toUpperCase_def upper_char_def)
  have h1b: "apply_calls (makeRouter (Some (text_app ''mine'')))
               ([?c] @ CallRun (text_app ''other'') # []) = Inr ?st2"
    by (simp add: router_verb_def router_route_def makeRouter_def get_head_router_def
          router_run_def template_route_def push_route_def toUpperCase_def upper_char_def)
  have h2: "\<not> is_run ?c" by simp
  then have h2': "\<forall>c\<in>set [?c]. \<not> is_run c" by simp
  have h2'': "\<forall>c\<in>set []. \<not> is_run c" by simp
  have h4: "exec (pattern ?r) (pathInfo ?rq) = None"
    by (simp add: template_route_def make_route_def sample_request_def exec_def compileRoute_def)
  have b: "bucket (routes ?st) (method ?rq) @ bucket (routes ?st) ''ANY'' = [?r]"
    by (simp add: get_head_router_def sample_request_def bucket_def)
  have h5: "\<forall>r\<in>set (bucket (routes ?st) (method ?rq) @ bucket (routes ?st) ''ANY'').
              exec (pattern r) (pathInfo ?rq) = None"
    using b h4 by simp
  have h5a: "\<forall>r\<in>set (bucket (routes ?st1) (method ?rq) @ bucket (routes ?st1) ''ANY'').
              exec (pattern r) (pathInfo ?rq) = None"
    using h5 by (simp add: router_run_def)
  have h5b: "\<forall>r\<in>set (bucket (routes ?st2) (method ?rq) @ bucket (routes ?st2) ''ANY'').
              exec (pattern r) (pathInfo ?rq) = None"
    using h5 by (simp add: router_run_def)
  note inst = fallthrough_to_default
      [where st = ?st and rq = ?rq and calls = "[?c]"
         and ?d1.0 = "text_app ''mine''" and ?calls1.0 = "[?c]" and ?st1.0 = ?st1
         and arg = "Some (text_app ''mine'')" and ?calls2.0 = "[?c]"
         and ?d2.0 = "text_app ''other''" and ?calls3.0 = "[]" and ?st2.0 = ?st2]
  have c1: "router ?st ?rq = request_call ?rq (defaultApp ?st)"
    using inst h5 by blast
  have c2: "router ?st ?rq = request_call ?rq utils_defaultApp"
    using inst h1 h2' h5 by blast
  have c3: "router ?st ?rq =
     (Fulfilled \<lparr> status = 404, headers = [''Content-Type'' \<mapsto> JStr ''text/plain''],
                  content = \<lparr> bytes = ''Not Found'', has_destroy = False \<rparr> \<rparr>, ?rq)"
    using c2 by (simp add: request_call_def utils_defaultApp_def)
  have c4: "router ?st1 ?rq = request_call ?rq (text_app ''mine'')"
    using inst h1a h2' h5a by blast
  have c5: "router ?st2 ?rq = request_call ?rq (text_app ''other'')"
    using inst h1b h2'' h5b by blast
  from h1 h2 h4 c1 c3 h1a c4 h1b c5 show ?thesis by blast
qed


section \<open>Patterns that are neither strings nor matchers\<close>

text \<open>
  Claim C5. A pattern that is neither a string nor a RegExp makes \<^verbatim>\<open>router.route\<close>, and so
  each of the verb functions, throw \<^verbatim>\<open>Error('Pattern must be a RegExp')\<close> at once, whatever
  the router, the app and the methods: the call returns no router, and nothing of the
  pattern reaches a table that dispatch could read later.
\<close>

theorem bad_pattern_throws_at_registration:
  assumes "\<forall>s. pat \<noteq> JStr s" and "\<forall>re. pat \<noteq> JRegExp re"
  shows "router_route st pat a ms = Inl (Error ''Pattern must be a RegExp'') \<and>
         router_verb v st pat a = Inl (Error ''Pattern must be a RegExp'') \<and>
         apply_calls st (CallRoute pat a ms # calls) = Inl (Error ''Pattern must be a RegExp'')"
  using assms by (cases pat) (simp_all add: router_route_def router_verb_def)

text \<open>The pattern \<^verbatim>\<open>42\<close>, with \<^verbatim>\<open>route\<close> and with \<^verbatim>\<open>get\<close>.\<close>

theorem bad_pattern_throws_at_registration_witness:
  "router_route (makeRouter None) (JNum 42) (text_app ''x'') NoMethods =
     Inl (Error ''Pattern must be a RegExp'') \<and>
   router_verb Get (makeRouter None) (JNum 42) (text_app ''x'') =
     Inl (Error ''Pattern must be a RegExp'') \<and>
   apply_calls (makeRouter None)
     [CallRoute (JNum 42) (text_app ''x'') NoMethods,
      CallVerb Get (JStr ''/'') (text_app ''home'')] =
     Inl (Error ''Pattern must be a RegExp'')"
proof -
  have "\<forall>s. JNum 42 \<noteq> JStr s" and "\<forall>re. JNum 42 \<noteq> JRegExp re"
    by simp_all
  then show ?thesis
    using bad_pattern_throws_at_registration
      [of "JNum 42" "makeRouter None" "text_app ''x''" NoMethods Get
          "[CallVerb Get (JStr ''/'') (text_app ''home'')]"]
    by blast
qed


section \<open>GET routes and HEAD requests\<close>

text \<open>
  Claim C6, at the input where the code departs from it. A route registered with the
  \<^verbatim>\<open>get\<close> function is put in the GET bucket and in the HEAD bucket
  (\<open>get_route_in_both_buckets\<close>). But when its pattern was compiled with a parameter named
  \<^verbatim>\<open>length\<close>, a HEAD request that it matches, and that no route already in the HEAD
  bucket matches, does not reach its app: \<^verbatim>\<open>Object.defineProperties\<close> throws a TypeError,
  the router throws, and the listener runs its second callback on that failure. (Without
  such a parameter the request reaches the app, and the listener writes no body for a HEAD
  request: \<open>get_route_reached_by_head\<close>, \<open>head_response_has_no_body\<close>.)
\<close>

theorem head_of_length_route_fails:
  assumes "router_verb Get st pat a = Inr st'"
      and "compile_pattern pat = (JRegExp re, keys)"
      and "''length'' \<in> set keys"
      and "method rq = ''HEAD''"
      and "\<forall>x\<in>set (bucket (routes st) ''HEAD''). exec (pattern x) (pathInfo rq) = None"
      and "exec re (pathInfo rq) = Some m"
  shows "bucket (routes st') ''HEAD'' = bucket (routes st) ''HEAD'' @ [make_route re keys a] \<and>
         router st' rq = (Rejected (thrown TypeError), rq) \<and>
         request_listener shc (router st') rq = on_rejected (thrown TypeError)"
proof -
  let ?r = "make_route re keys a"
  have h: "bucket (routes st') ''HEAD'' = bucket (routes st) ''HEAD'' @ [?r]"
    using get_route_in_both_buckets(2) [OF assms(1,2)] .
  have c1: "bucket (routes st') (method rq) @ bucket (routes st') ''ANY'' =
              bucket (routes st) ''HEAD'' @ ?r # bucket (routes st') ''ANY''"
    using assms(4) h by simp
  have c3: "exec (pattern ?r) (pathInfo rq) = Some m"
    using assms(6) by (simp add: make_route_def)
  have c4: "accessors ?r ''length'' \<noteq> None"
    using assms(3) by (simp add: make_route_length)
  have t: "router st' rq = (Rejected (thrown TypeError), rq)"
    using router_first_match_throws [OF c1 assms(5) c3 c4] .
  have "request_listener shc (router st') rq = on_rejected (thrown TypeError)"
    by (simp add: request_listener_def request_call_def t)
  with h t show ?thesis by blast
qed

text \<open>
  \<^verbatim>\<open>get('/:length', app)\<close> on a fresh router and the request \<^verbatim>\<open>HEAD /5\<close>: the route is
  in the HEAD bucket and matches, the router throws, and the listener answers 500 with the
  text of the generic error.
\<close>

theorem head_of_length_route_fails_witness:
  "router_verb Get (makeRouter None) (JStr ''/:length'') (text_app ''five'') =
     Inr (get_head_router [template_route ''/:length'' (text_app ''five'')]
                          [template_route ''/:length'' (text_app ''five'')]) \<and>
   snd (compileRoute ''/:length'') = [''length''] \<and>
   method (sample_request ''HEAD'' ''/5'') = ''HEAD'' \<and>
   bucket (routes (makeRouter None)) ''HEAD'' = [] \<and>
   exec (fst (compileRoute ''/:length'')) (pathInfo (sample_request ''HEAD'' ''/5'')) =
     Some [JStr ''/5'', JStr ''5''] \<and>
   bucket (routes (get_head_router [template_route ''/:length'' (text_app ''five'')]
                                   [template_route ''/:length'' (text_app ''five'')])) ''HEAD'' =
     [template_route ''/:length'' (text_app ''five'')] \<and>
   router (get_head_router [template_route ''/:length'' (text_app ''five'')]
                           [template_route ''/:length'' (text_app ''five'')])
          (sample_request ''HEAD'' ''/5'') =
     (Rejected (thrown TypeError), sample_request ''HEAD'' ''/5'') \<and>
   request_listener utils_statusHasContent
     (router (get_head_router [template_route ''/:length'' (text_app ''five'')]
                              [template_route ''/:length'' (text_app ''five'')]))
     (sample_request ''HEAD'' ''/5'') =
     Inr \<lparr> written_head = Some (500, [''Content-Type'' \<mapsto> JStr ''text/plain'']),
           written_body = ''Internal Server Error'', ended = True,
           error_stream = [''TypeError'' @ [CHR 0x0A]], destroyed = False \<rparr>"
proof -
  let ?a = "text_app ''five''"
  let ?r = "template_route ''/:length'' ?a"
  let ?st' = "get_head_router [?r] [?r]"
  let ?rq = "sample_request ''HEAD'' ''/5''"
  have h1: "router_verb Get (makeRouter None) (JStr ''/:length'') ?a = Inr ?st'"
    by (simp add: router_verb_def router_route_def makeRouter_def get_head_router_def
          template_route_def push_route_def toUpperCase_def upper_char_def)
  have h2: "compile_pattern (JStr ''/:length'') =
      (JRegExp (fst (compileRoute ''/:length'')), snd (compileRoute ''/:length''))"
    by simp
  have k: "snd (compileRoute ''/:length'') = [''length'']"
    by (simp add: compileRoute_def)
  then have h3: "''length'' \<in> set (snd (compileRoute ''/:length''))"
    by simp
  have h4: "method ?rq = ''HEAD''"
    by (simp add: sample_request_def)
  have k2: "bucket (routes (makeRouter None)) ''HEAD'' = []"
    by (simp add: makeRouter_def bucket_def)
  then have h5: "\<forall>x\<in>set (bucket (routes (makeRouter None)) ''HEAD'').
      exec (pattern x) (pathInfo ?rq) = None"
    by simp
  have h6: "exec (fst (compileRoute ''/:length'')) (pathInfo ?rq) = Some [JStr ''/5'', JStr ''5'']"
    by (simp add: sample_request_def exec_def compileRoute_def)
  note inst = head_of_length_route_fails
      [OF h1 h2 h3 h4 h5 h6, where shc = utils_statusHasContent]
  have c1: "bucket (routes ?st') ''HEAD'' = [?r]"
    using inst k2 by (simp add: template_route_def)
  have c2: "router ?st' ?rq = (Rejected (thrown TypeError), ?rq)"
    using inst by blast
  have "request_listener utils_statusHasContent (router ?st') ?rq = on_rejected (thrown TypeError)"
    using inst by blast
  then have c3: "request_listener utils_statusHasContent (router ?st') ?rq =
     Inr \<lparr> written_head = Some (500, [''Content-Type'' \<mapsto> JStr ''text/plain'']),
           written_body = ''Internal Server Error'', ended = True,
           error_stream = [''TypeError'' @ [CHR 0x0A]], destroyed = False \<rparr>"
    by (simp add: untouched_def)
  from h1 k h4 k2 h6 c1 c2 c3 show ?thesis by blast
qed


section \<open>Method buckets are kept apart\<close>

text \<open>
  Claim C7. Registering a route under the method name POST, in any letter case, and under
  nothing else leaves the GET bucket and the wildcard bucket as they were, and the dispatch
  of every GET request is the same after the registration as before it. More generally the
  dispatch of a GET request depends on the GET bucket, the wildcard bucket and the default
  app only: a route is tried for a GET request only by being in one of these two buckets.
\<close>

theorem post_route_not_tried_for_get:
  "(toUpperCase name = ''POST'' \<and> router_route st pat a (OneMethod name) = Inr st' \<and>
    method rq = ''GET''
    \<longrightarrow> bucket (routes st') ''GET'' = bucket (routes st) ''GET'' \<and>
        bucket (routes st') ''ANY'' = bucket (routes st) ''ANY'' \<and>
        router st' rq = router st rq) \<and>
   (method rq = ''GET'' \<and>
    bucket (routes s1) ''GET'' = bucket (routes s2) ''GET'' \<and>
    bucket (routes s1) ''ANY'' = bucket (routes s2) ''ANY'' \<and>
    defaultApp s1 = defaultApp s2
    \<longrightarrow> router s1 rq = router s2 rq)"
proof (intro conjI impI)
  assume h: "toUpperCase name = ''POST'' \<and> router_route st pat a (OneMethod name) = Inr st' \<and>
    method rq = ''GET''"
  then obtain re keys where c: "compile_pattern pat = (JRegExp re, keys)"
    by (auto simp: router_route_Inr)
  from h have rr: "router_route st pat a (OneMethod name) = Inr st'" by simp
  show g: "bucket (routes st') ''GET'' = bucket (routes st) ''GET''"
    using router_route_bucket [OF rr c, of "''GET''"] h by simp
  show w: "bucket (routes st') ''ANY'' = bucket (routes st) ''ANY''"
    using router_route_bucket [OF rr c, of "''ANY''"] h by simp
  show "router st' rq = router st rq"
    using g w h router_route_defaultApp [OF rr] by (simp add: router_def)
next
  assume "method rq = ''GET'' \<and>
    bucket (routes s1) ''GET'' = bucket (routes s2) ''GET'' \<and>
    bucket (routes s1) ''ANY'' = bucket (routes s2) ''ANY'' \<and>
    defaultApp s1 = defaultApp s2"
  then show "router s1 rq = router s2 rq"
    by (simp add: router_def)
qed

text \<open>
  \<^verbatim>\<open>route('/login', app, 'post')\<close> on a router that serves \<^verbatim>\<open>GET /\<close>: the request
  \<^verbatim>\<open>GET /login\<close> falls through to the default app, as it did before.
\<close>

theorem post_route_not_tried_for_get_witness:
  "toUpperCase ''post'' = ''POST'' \<and>
   router_route (get_router [template_route ''/'' (text_app ''home'')]) (JStr ''/login'')
                (text_app ''logged in'') (OneMethod ''post'') =
     Inr (get_post_router [template_route ''/'' (text_app ''home'')]
                          [template_route ''/login'' (text_app ''logged in'')]) \<and>
   method (sample_request ''GET'' ''/login'') = ''GET'' \<and>
   bucket (routes (get_post_router [template_route ''/'' (text_app ''home'')]
                                   [template_route ''/login'' (text_app ''logged in'')])) ''GET'' =
     bucket (routes (get_router [template_route ''/'' (text_app ''home'')])) ''GET'' \<and>
   bucket (routes (get_post_router [template_route ''/'' (text_app ''home'')]
                                   [template_route ''/login'' (text_app ''logged in'')])) ''ANY'' =
     bucket (routes (get_router [template_route ''/'' (text_app ''home'')])) ''ANY'' \<and>
   defaultApp (get_post_router [template_route ''/'' (text_app ''home'')]
                               [template_route ''/login'' (text_app ''logged in'')]) =
     defaultApp (get_router [template_route ''/'' (text_app ''home'')]) \<and>
   router (get_post_router [template_route ''/'' (text_app ''home'')]
                           [template_route ''/login'' (text_app ''logged in'')])
          (sample_request ''GET'' ''/login'') =
     router (get_router [template_route ''/'' (text_app ''home'')])
            (sample_request ''GET'' ''/login'') \<and>
   router (get_post_router [template_route ''/'' (text_app ''home'')]
                           [template_route ''/login'' (text_app ''logged in'')])
          (sample_request ''GET'' ''/login'') =
     utils_defaultApp (sample_request ''GET'' ''/login'')"
proof -
  let ?home = "template_route ''/'' (text_app ''home'')"
  let ?login = "template_route ''/login'' (text_app ''logged in'')"
  let ?st = "get_router [?home]"
  let ?st' = "get_post_router [?home] [?login]"
  let ?rq = "sample_request ''GET'' ''/login''"
  have h1: "toUpperCase ''post'' = ''POST''"
    by (simp add: toUpperCase_def upper_char_def)
  have h2: "router_route ?st (JStr ''/login'') (text_app ''logged in'') (OneMethod ''post'') =
      Inr ?st'"
    by (simp add: router_route_def get_router_def get_post_router_def
          template_route_def push_route_def toUpperCase_def upper_char_def)
  have h3: "method ?rq = ''GET''"
    by (simp add: sample_request_def)
  note inst = post_route_not_tried_for_get
      [where name = "''post''" and st = ?st and pat = "JStr ''/login''"
         and a = "text_app ''logged in''" and st' = ?st' and rq = ?rq
         and ?s1.0 = ?st' and ?s2.0 = ?st]
  have c: "bucket (routes ?st') ''GET'' = bucket (routes ?st) ''GET'' \<and>
           bucket (routes ?st') ''ANY'' = bucket (routes ?st) ''ANY'' \<and>
           router ?st' ?rq = router ?st ?rq"
    using inst h1 h2 h3 by blast
  have d: "defaultApp ?st' = defaultApp ?st"
    by (simp add: get_router_def get_post_router_def)
  have c': "router ?st' ?rq = router ?st ?rq"
    using inst h3 c d by blast
  have e: "router ?st ?rq = utils_defaultApp ?rq"
    by (simp add: router_def get_router_def bucket_def sample_request_def template_route_def
          make_route_def exec_def compileRoute_def request_call_def)
  from h1 h2 h3 c d c' e show ?thesis by simp
qed


section \<open>Failed dispatches\<close>

text \<open>
  Claim C8, at the input where the code departs from it. When the deferred result of the
  app rejects with the reason \<^verbatim>\<open>undefined\<close> or \<^verbatim>\<open>null\<close>, the listener's second callback
  throws a TypeError at \<^verbatim>\<open>error.stack\<close>, before it has written anything: no status 500 and
  no body are sent for the request. (For every other reason the 500 response is written:
  \<open>listener_on_failure\<close>.)
\<close>

theorem nullish_rejection_gets_no_response:
  assumes "a rq = (Rejected e, rq')" and "e = Undefined \<or> e = Null"
  shows "request_listener shc a rq = Inl TypeError"
  using assms by (auto simp: request_listener_def request_call_def)

text \<open>
  A router whose one route matches every path and whose app rejects with \<^verbatim>\<open>undefined\<close>:
  the rejection passes through the router, and the listener writes nothing.
\<close>

theorem nullish_rejection_gets_no_response_witness:
  "router (get_router [make_route any_matcher [] (failing_app Undefined)])
          (sample_request ''GET'' ''/'') =
     (Rejected Undefined,
      (sample_request ''GET'' ''/'')\<lparr>route := Some \<lparr> slots = [JStr ''/''], props = Map.empty \<rparr>\<rparr>) \<and>
   request_listener utils_statusHasContent
     (router (get_router [make_route any_matcher [] (failing_app Undefined)]))
     (sample_request ''GET'' ''/'') = Inl TypeError"
proof -
  let ?st = "get_router [make_route any_matcher [] (failing_app Undefined)]"
  let ?rq = "sample_request ''GET'' ''/''"
  have h: "router ?st ?rq =
     (Rejected Undefined, ?rq\<lparr>route := Some \<lparr> slots = [JStr ''/''], props = Map.empty \<rparr>\<rparr>)"
    by (simp add: router_def get_router_def bucket_def sample_request_def make_route_def
          exec_def any_matcher_def failing_app_def request_call_def defineProperties_def
          with_accessors_def utils_slice_def)
  have "request_listener utils_statusHasContent (router ?st) ?rq = Inl TypeError"
    using nullish_rejection_gets_no_response
      [where a = "router ?st" and rq = ?rq and e = Undefined
         and rq' = "?rq\<lparr>route := Some \<lparr> slots = [JStr ''/''], props = Map.empty \<rparr>\<rparr>"
         and shc = utils_statusHasContent] h
    by simp
  with h show ?thesis by simp
qed


section \<open>Patterns given as matchers\<close>

text \<open>
  Claim C9. A pattern given as a RegExp is stored as the route's matcher as it is, with an
  empty accessor table, in every bucket the methods name. When that route matches, the
  value attached to \<^verbatim>\<open>request.route\<close> is the array of the match and no more: every named
  property reads \<^verbatim>\<open>undefined\<close>, every index reads the capture at that position.
\<close>

theorem regexp_pattern_kept:
  "router_route st (JRegExp re) a ms =
     Inr (st\<lparr>routes := foldl (push_route \<lparr> pattern = re, app = a, accessors = Map.empty \<rparr>)
                           (routes st) (normalize_methods ms)\<rparr>) \<and>
   (exec re (pathInfo rq) = Some m \<longrightarrow>
      router_loop (\<lparr> pattern = re, app = a, accessors = Map.empty \<rparr> # rest) d rq =
        request_call (rq\<lparr>route := Some \<lparr> slots = m, props = Map.empty \<rparr>\<rparr>) a \<and>
      (\<forall>name. prop_get \<lparr> slots = m, props = Map.empty \<rparr> name = JUndefined) \<and>
      (\<forall>i. index_get \<lparr> slots = m, props = Map.empty \<rparr> i = array_get m i))"
  by (simp add: router_route_def make_route_def defineProperties_def with_accessors_def
        utils_slice_def prop_get_def index_get_def)

text \<open>
  The matcher for the paths under \<^verbatim>\<open>/files/\<close>, registered without methods, and the path
  \<^verbatim>\<open>/files/a.txt\<close>.
\<close>

theorem regexp_pattern_kept_witness:
  "router_route (makeRouter None) (JRegExp files_matcher) (text_app ''file'') NoMethods =
     Inr \<lparr> defaultApp = utils_defaultApp,
           routes = [''ANY'' \<mapsto> [\<lparr> pattern = files_matcher, app = text_app ''file'',
                                   accessors = Map.empty \<rparr>]] \<rparr> \<and>
   exec files_matcher (pathInfo (sample_request ''GET'' ''/files/a.txt'')) =
     Some [JStr ''/files/a.txt'', JStr ''a.txt''] \<and>
   router_loop [\<lparr> pattern = files_matcher, app = text_app ''file'', accessors = Map.empty \<rparr>]
               utils_defaultApp (sample_request ''GET'' ''/files/a.txt'') =
     request_call
       ((sample_request ''GET'' ''/files/a.txt'')
          \<lparr>route := Some \<lparr> slots = [JStr ''/files/a.txt'', JStr ''a.txt''],
                           props = Map.empty \<rparr>\<rparr>)
       (text_app ''file'') \<and>
   prop_get \<lparr> slots = [JStr ''/files/a.txt'', JStr ''a.txt''], props = Map.empty \<rparr> ''splat'' =
     JUndefined \<and>
   index_get \<lparr> slots = [JStr ''/files/a.txt'', JStr ''a.txt''], props = Map.empty \<rparr> 1 =
     JStr ''a.txt''"
proof -
  let ?rq = "sample_request ''GET'' ''/files/a.txt''"
  let ?m = "[JStr ''/files/a.txt'', JStr ''a.txt'']"
  note inst = regexp_pattern_kept
      [where st = "makeRouter None" and re = files_matcher and a = "text_app ''file''"
         and ms = NoMethods and rq = ?rq and m = ?m and rest = "[]" and d = utils_defaultApp]
  have h: "exec files_matcher (pathInfo ?rq) = Some ?m"
    by (simp add: exec_def files_matcher_def sample_request_def)
  have c1: "router_route (makeRouter None) (JRegExp files_matcher) (text_app ''file'') NoMethods =
      Inr \<lparr> defaultApp = utils_defaultApp,
            routes = [''ANY'' \<mapsto> [\<lparr> pattern = files_matcher, app = text_app ''file'',
                                    accessors = Map.empty \<rparr>]] \<rparr>"
    using inst by (simp add: makeRouter_def push_route_def toUpperCase_def upper_char_def)
  have c2: "router_loop [\<lparr> pattern = files_matcher, app = text_app ''file'',
                           accessors = Map.empty \<rparr>] utils_defaultApp ?rq =
      request_call (?rq\<lparr>route := Some \<lparr> slots = ?m, props = Map.empty \<rparr>\<rparr>) (text_app ''file'')"
    using inst h by blast
  have c3: "prop_get \<lparr> slots = ?m, props = Map.empty \<rparr> ''splat'' = JUndefined"
    using inst h by blast
  have "index_get \<lparr> slots = ?m, props = Map.empty \<rparr> 1 = array_get ?m 1"
    using inst h by blast
  then have c4: "index_get \<lparr> slots = ?m, props = Map.empty \<rparr> 1 = JStr ''a.txt''"
    by (simp add: array_get_def)
  from c1 h c2 c3 c4 show ?thesis by blast
qed


section \<open>Fallthrough leaves the request as it came\<close>

text \<open>
  Claim C10. When no route in the sequence tried for a request matches its path, the router
  hands the request to the default app as it received it: its result is the default app
  applied to that very request, for the default app it has and for any app set with
  \<^verbatim>\<open>run\<close>. The \<^verbatim>\<open>route\<close> field is therefore what it was before dispatch, a value or absent.
\<close>

theorem fallthrough_keeps_route_field:
  assumes "\<forall>r\<in>set (bucket (routes st) (method rq) @ bucket (routes st) ''ANY'').
             exec (pattern r) (pathInfo rq) = None"
  shows "router st rq = defaultApp st rq \<and> router (router_run st d) rq = d rq"
proof -
  have "routes (router_run st d) = routes st" and "defaultApp (router_run st d) = d"
    by (simp_all add: router_run_def)
  with assms have "router (router_run st d) rq = request_call rq d"
    using router_no_match [of "router_run st d" rq] by simp
  moreover have "router st rq = request_call rq (defaultApp st)"
    using assms by (rule router_no_match)
  ultimately show ?thesis by (simp add: request_call_def)
qed

text \<open>
  A request for \<^verbatim>\<open>/nowhere\<close> whose \<^verbatim>\<open>route\<close> field an upstream router has set, on a router
  serving \<^verbatim>\<open>/users/:id\<close>: the built-in default app, and an app set with \<^verbatim>\<open>run\<close>, receive
  the request with that field as it was.
\<close>

theorem fallthrough_keeps_route_field_witness:
  "exec (pattern (template_route ''/users/:id'' (text_app ''user''))) ''/nowhere'' = None \<and>
   router (get_router [template_route ''/users/:id'' (text_app ''user'')])
          \<lparr> method = ''GET'', pathInfo = ''/nowhere'',
            route = Some \<lparr> slots = [JStr ''/up/nowhere''], props = Map.empty \<rparr> \<rparr> =
     utils_defaultApp
          \<lparr> method = ''GET'', pathInfo = ''/nowhere'',
            route = Some \<lparr> slots = [JStr ''/up/nowhere''], props = Map.empty \<rparr> \<rparr> \<and>
   route (snd (router (get_router [template_route ''/users/:id'' (text_app ''user'')])
          \<lparr> method = ''GET'', pathInfo = ''/nowhere'',
            route = Some \<lparr> slots = [JStr ''/up/nowhere''], props = Map.empty \<rparr> \<rparr>)) =
     Some \<lparr> slots = [JStr ''/up/nowhere''], props = Map.empty \<rparr> \<and>
   router (router_run (get_router [template_route ''/users/:id'' (text_app ''user'')])
                      (text_app ''custom''))
          \<lparr> method = ''GET'', pathInfo = ''/nowhere'',
            route = Some \<lparr> slots = [JStr ''/up/nowhere''], props = Map.empty \<rparr> \<rparr> =
     text_app ''custom''
          \<lparr> method = ''GET'', pathInfo = ''/nowhere'',
            route = Some \<lparr> slots = [JStr ''/up/nowhere''], props = Map.empty \<rparr> \<rparr>"
proof -
  let ?r = "template_route ''/users/:id'' (text_app ''user'')"
  let ?st = "get_router [?r]"
  let ?rq = "\<lparr> method = ''GET'', pathInfo = ''/nowhere'',
               route = Some \<lparr> slots = [JStr ''/up/nowhere''], props = Map.empty \<rparr> \<rparr>"
  have h1: "exec (pattern ?r) ''/nowhere'' = None"
    by (simp add: template_route_def make_route_def exec_def compileRoute_def)
  have h2: "bucket (routes ?st) (method ?rq) @ bucket (routes ?st) ''ANY'' = [?r]"
    by (simp add: get_router_def bucket_def)
  have h: "\<forall>r\<in>set (bucket (routes ?st) (method ?rq) @ bucket (routes ?st) ''ANY'').
             exec (pattern r) (pathInfo ?rq) = None"
    using h1 h2 by simp
  note inst = fallthrough_keeps_route_field [OF h, of "text_app ''custom''"]
  have d: "defaultApp ?st = utils_defaultApp"
    by (simp add: get_router_def)
  have c1: "router ?st ?rq = utils_defaultApp ?rq"
    using inst d by simp
  have c2: "route (snd (router ?st ?rq)) = Some \<lparr> slots = [JStr ''/up/nowhere''], props = Map.empty \<rparr>"
    unfolding c1 by (simp add: utils_defaultApp_def)
  have c3: "router (router_run ?st (text_app ''custom'')) ?rq = text_app ''custom'' ?rq"
    using inst by blast
  from h1 c1 c2 c3 show ?thesis by blast
qed

end
